theory Spec2Isabelle
  imports Complex_Main
begin

section \<open>JavaScript values\<close>

text \<open>
  Every value the two server entry points handle is a JSON value or \<open>undefined\<close>:
  request envelopes, tool arguments, tool descriptors, tool results and response
  envelopes are all plain object literals or parsed JSON. An object is the list of its
  own properties in insertion order, each key once; a property that is absent reads as
  \<open>undefined\<close>. A number is a rational: every finite double is one, and \<open>0\<close> and \<open>-0\<close>,
  which are falsy alike and go on the wire alike, are the same number here.
\<close>

datatype json =
    JUndefined
  | JNull
  | JBool bool
  | JNum rat
  | JStr string
  | JArr "json list"
  | JObj "(string \<times> json) list"

text \<open>A thrown value. Everything this program throws or receives is an \<open>Error\<close>
  object with a \<open>message\<close>.\<close>

datatype js_error =
    Error (message: string)
  | TypeError (message: string)
  | SyntaxError (message: string)

text \<open>\<open>!v\<close> is \<open>\<not> truthy v\<close>; \<open>a || b\<close> is \<open>or_else a b\<close>.\<close>

fun truthy :: "json \<Rightarrow> bool" where
  "truthy JUndefined = False"
| "truthy JNull = False"
| "truthy (JBool b) = b"
| "truthy (JNum n) = (n \<noteq> 0)"
| "truthy (JStr s) = (s \<noteq> [])"
| "truthy (JArr xs) = True"
| "truthy (JObj kvs) = True"

definition or_else :: "json \<Rightarrow> json \<Rightarrow> json" where
  "or_else a b = (if truthy a then a else b)"

definition nullish :: "json \<Rightarrow> bool" where
  "nullish v = (v = JUndefined \<or> v = JNull)"

subsection \<open>Property access and destructuring\<close>

text \<open>
  The program reads only the keys \<open>jsonrpc\<close>, \<open>method\<close>, \<open>params\<close>, \<open>id\<close>, \<open>name\<close>,
  \<open>arguments\<close> and the argument names of the tools. None of them is a property of an
  array, a string, a number or a boolean, so on those every read gives \<open>undefined\<close>.
\<close>

fun lookup :: "json \<Rightarrow> string \<Rightarrow> json" where
  "lookup (JObj kvs) k = (case map_of kvs k of None \<Rightarrow> JUndefined | Some v \<Rightarrow> v)"
| "lookup v k = JUndefined"

text \<open>How an error message names the value that was \<open>undefined\<close> or \<open>null\<close>.\<close>

definition nullish_name :: "json \<Rightarrow> string" where
  "nullish_name v = (if v = JNull then ''null'' else ''undefined'')"

text \<open>\<open>v.k\<close>: reading a property of \<open>undefined\<close> or \<open>null\<close> throws a \<open>TypeError\<close>
  (the message is the one of V8, the engine of the Node 20 image the server runs on).\<close>

definition get_prop :: "json \<Rightarrow> string \<Rightarrow> js_error + json" where
  "get_prop v k =
     (if nullish v
      then Inl (TypeError (''Cannot read properties of '' @ nullish_name v @ '' (reading ''
                            @ [CHR 0x27] @ k @ [CHR 0x27] @ '')''))
      else Inr (lookup v k))"

text \<open>\<open>const { k, ... } = v\<close> where the source text of the right-hand side is \<open>src\<close>:
  destructuring \<open>undefined\<close> or \<open>null\<close> throws; \<open>k\<close> is the first property of the pattern.\<close>

definition destructure :: "json \<Rightarrow> string \<Rightarrow> string \<Rightarrow> js_error + unit" where
  "destructure v k src =
     (if nullish v
      then Inl (TypeError (''Cannot destructure property '' @ [CHR 0x27] @ k @ [CHR 0x27]
                            @ '' of '' @ [CHR 0x27] @ src @ [CHR 0x27] @ '' as it is ''
                            @ nullish_name v @ ''.''))
      else Inr ())"

text \<open>The decimal text of a natural number: the name of an array index.\<close>

definition digit_char :: "nat \<Rightarrow> char" where
  "digit_char d = ''0123456789'' ! d"

function show_nat :: "nat \<Rightarrow> string" where
  "show_nat n = (if n < 10 then [digit_char n] else show_nat (n div 10) @ [digit_char (n mod 10)])"
  by pat_completeness auto
termination
  by (relation "measure id") auto

declare show_nat.simps [simp del]

text \<open>The own enumerable properties that a rest pattern \<open>...rest\<close> copies: those of an
  object, the indexed elements of an array, the indexed characters of a string, none of
  a number or a boolean.\<close>

fun own_props :: "json \<Rightarrow> (string \<times> json) list" where
  "own_props (JObj kvs) = kvs"
| "own_props (JArr xs) = zip (map show_nat [0 ..< length xs]) xs"
| "own_props (JStr s) = zip (map show_nat [0 ..< length s]) (map (\<lambda>c. JStr [c]) s)"
| "own_props v = []"

definition rest :: "json \<Rightarrow> string list \<Rightarrow> json" where
  "rest v taken = JObj (filter (\<lambda>(k, x). k \<notin> set taken) (own_props v))"

section \<open>The runtime and the external collaborator\<close>

text \<open>
  What \<open>fetch\<close> resolves to: the status, and what \<open>response.text()\<close> and
  \<open>response.json()\<close> settle to. \<open>response.ok\<close> is a status in 200..299.
\<close>

datatype response =
  Response (res_status: nat) (res_text: "js_error + string") (res_json: "js_error + json")

definition ok :: "response \<Rightarrow> bool" where
  "ok r = (200 \<le> res_status r \<and> res_status r \<le> 299)"

datatype fetch_outcome =
    Rejected js_error
  | Resolved response

text \<open>
  The built-ins the program calls are parameters of the model: \<open>fetch url options\<close>
  (the wrapped hosting API behind it), \<open>JSON.stringify(v, null, indent)\<close> on values for
  which it returns text, and the text of a number (\<open>Number::toString\<close>, which prints
  small integers in decimal and large magnitudes in exponent form).
\<close>

record runtime =
  fetch :: "string \<Rightarrow> json \<Rightarrow> fetch_outcome"
  JSON_stringify :: "json \<Rightarrow> nat \<Rightarrow> string"
  Number_toString :: "rat \<Rightarrow> string"

subsection \<open>Conversion to text in template literals\<close>

fun join :: "string \<Rightarrow> string list \<Rightarrow> string" where
  "join sep [] = []"
| "join sep [x] = x"
| "join sep (x # y # ys) = x @ sep @ join sep (y # ys)"

text \<open>
  \<open>`${v}`\<close> converts \<open>v\<close> to text. A string stands for itself. An array joins the texts
  of its elements with commas, \<open>null\<close> and \<open>undefined\<close> elements counting as the empty
  text. Any other object goes through its \<open>toString\<close>: a parsed object inherits the one
  that answers \<open>[object Object]\<close>, unless it has an own property of that name, which is
  never callable in parsed JSON, and then the conversion throws a \<open>TypeError\<close>.
\<close>

fun ToString :: "runtime \<Rightarrow> json \<Rightarrow> js_error + string"
  and ToString_elements :: "runtime \<Rightarrow> json list \<Rightarrow> js_error + string list" where
  "ToString rt JUndefined = Inr ''undefined''"
| "ToString rt JNull = Inr ''null''"
| "ToString rt (JBool b) = Inr (if b then ''true'' else ''false'')"
| "ToString rt (JNum n) = Inr (Number_toString rt n)"
| "ToString rt (JStr s) = Inr s"
| "ToString rt (JArr xs) =
     (case ToString_elements rt xs of Inl error \<Rightarrow> Inl error | Inr ts \<Rightarrow> Inr (join '','' ts))"
| "ToString rt (JObj kvs) =
     (if map_of kvs ''toString'' \<noteq> None
      then Inl (TypeError ''Cannot convert object to primitive value'')
      else Inr ''[object Object]'')"
| "ToString_elements rt [] = Inr []"
| "ToString_elements rt (x # xs) =
     (case (if x = JUndefined \<or> x = JNull then Inr [] else ToString rt x) of
        Inl error \<Rightarrow> Inl error
      | Inr t \<Rightarrow>
          (case ToString_elements rt xs of Inl error \<Rightarrow> Inl error | Inr ts \<Rightarrow> Inr (t # ts)))"

text \<open>A template literal is its parts from left to right: literal text and
  substitutions \<open>${v}\<close>. The first substitution that cannot be converted throws.\<close>

datatype part = Lit string | Sub json

fun template :: "runtime \<Rightarrow> part list \<Rightarrow> js_error + string" where
  "template rt [] = Inr []"
| "template rt (Lit t # ps) =
     (case template rt ps of Inl error \<Rightarrow> Inl error | Inr ts \<Rightarrow> Inr (t @ ts))"
| "template rt (Sub v # ps) =
     (case ToString rt v of
        Inl error \<Rightarrow> Inl error
      | Inr t \<Rightarrow> (case template rt ps of Inl error \<Rightarrow> Inl error | Inr ts \<Rightarrow> Inr (t @ ts)))"

section \<open>The server\<close>

text \<open>The fields of \<open>this\<close> that the handlers read, set once by the constructor, and the
  log of the requests sent to the collaborator so far (url and options of every
  \<open>fetch\<close> call, oldest first).\<close>

record server =
  apiKey :: string
  baseUrl :: string
  outbound :: "(string \<times> json) list"

type_synonym 'a effect = "(js_error + 'a) \<times> server"

section \<open>makeRequest\<close>

text \<open>\<open>method\<close> is \<open>None\<close> where the caller omits it (default \<open>"GET"\<close>); an omitted
  \<open>data\<close> is \<open>undefined\<close> (default \<open>null\<close>). Whatever goes wrong inside the \<open>try\<close> is
  rethrown as \<open>API request failed: ...\<close>.\<close>

definition makeRequest :: "runtime \<Rightarrow> server \<Rightarrow> string \<Rightarrow> string option \<Rightarrow> json \<Rightarrow> json effect" where
  "makeRequest rt s endpoint method_arg data_arg =
    (let method = (case method_arg of None \<Rightarrow> ''GET'' | Some m \<Rightarrow> m);
         data = (if data_arg = JUndefined then JNull else data_arg);
         url = baseUrl s @ endpoint;
         headers = JObj [(''Authorization'', JStr (''Bearer '' @ apiKey s)),
                         (''Content-Type'', JStr ''application/json'')];
         options =
           (if truthy data \<and> (method = ''POST'' \<or> method = ''PUT'' \<or> method = ''PATCH'')
            then JObj [(''method'', JStr method), (''headers'', headers),
                       (''body'', JStr (JSON_stringify rt data 0))]
            else JObj [(''method'', JStr method), (''headers'', headers)]);
         s' = s\<lparr>outbound := outbound s @ [(url, options)]\<rparr>;
         failed = (\<lambda>error. Inl (Error (''API request failed: '' @ message error)))
     in (case fetch rt url options of
           Rejected error \<Rightarrow> (failed error, s')
         | Resolved response \<Rightarrow>
             if \<not> ok response
             then (case res_text response of
                     Inl error \<Rightarrow> (failed error, s')
                   | Inr errorText \<Rightarrow>
                       (failed (Error (''HTTP '' @ Number_toString rt (of_nat (res_status response))
                                        @ '': '' @ errorText)), s'))
             else (case res_json response of
                     Inl error \<Rightarrow> (failed error, s')
                   | Inr result \<Rightarrow> (Inr result, s'))))"

section \<open>The handler set\<close>

text \<open>Both entry points define the handlers below with the same text; the HTTP one
  lacks the SSL, backup and invoice handlers.\<close>

text \<open>The literal \<open>{content: [{type: "text", text: t}]}\<close>.\<close>

definition text_content :: "string \<Rightarrow> json" where
  "text_content t = JObj [(''content'', JArr [JObj [(''type'', JStr ''text''), (''text'', JStr t)]])]"

text \<open>\<open>const result = await e; return {content: ... f result ...}\<close>: a rejection of \<open>e\<close>
  leaves the handler as it is.\<close>

definition then_return :: "json effect \<Rightarrow> (json \<Rightarrow> string) \<Rightarrow> json effect" where
  "then_return e f =
     (case e of (Inl error, s') \<Rightarrow> (Inl error, s') | (Inr result, s') \<Rightarrow> (Inr (text_content (f result)), s'))"

text \<open>A step that can throw before anything is sent, such as reading \<open>args.vps_id\<close> or
  building the path from a template literal.\<close>

definition try_step :: "server \<Rightarrow> js_error + 'a \<Rightarrow> ('a \<Rightarrow> 'b effect) \<Rightarrow> 'b effect" where
  "try_step s r f = (case r of Inl error \<Rightarrow> (Inl error, s) | Inr v \<Rightarrow> f v)"

subsection \<open>VPS methods\<close>

definition listVPS :: "runtime \<Rightarrow> server \<Rightarrow> json effect" where
  "listVPS rt s =
     then_return (makeRequest rt s ''/v1/vps'' None JUndefined)
       (\<lambda>result. ''VPS instances: '' @ JSON_stringify rt result 2)"

definition getVPS :: "runtime \<Rightarrow> server \<Rightarrow> json \<Rightarrow> json effect" where
  "getVPS rt s vpsId =
     try_step s (template rt [Lit ''/v1/vps/'', Sub vpsId]) (\<lambda>endpoint.
       then_return (makeRequest rt s endpoint None JUndefined)
         (\<lambda>result. ''VPS details: '' @ JSON_stringify rt result 2))"

definition startVPS :: "runtime \<Rightarrow> server \<Rightarrow> json \<Rightarrow> json effect" where
  "startVPS rt s vpsId =
     try_step s (template rt [Lit ''/v1/vps/'', Sub vpsId, Lit ''/start'']) (\<lambda>endpoint.
       then_return (makeRequest rt s endpoint (Some ''POST'') JUndefined)
         (\<lambda>result. ''VPS start result: '' @ JSON_stringify rt result 2))"

definition stopVPS :: "runtime \<Rightarrow> server \<Rightarrow> json \<Rightarrow> json effect" where
  "stopVPS rt s vpsId =
     try_step s (template rt [Lit ''/v1/vps/'', Sub vpsId, Lit ''/stop'']) (\<lambda>endpoint.
       then_return (makeRequest rt s endpoint (Some ''POST'') JUndefined)
         (\<lambda>result. ''VPS stop result: '' @ JSON_stringify rt result 2))"

definition restartVPS :: "runtime \<Rightarrow> server \<Rightarrow> json \<Rightarrow> json effect" where
  "restartVPS rt s vpsId =
     try_step s (template rt [Lit ''/v1/vps/'', Sub vpsId, Lit ''/restart'']) (\<lambda>endpoint.
       then_return (makeRequest rt s endpoint (Some ''POST'') JUndefined)
         (\<lambda>result. ''VPS restart result: '' @ JSON_stringify rt result 2))"

text \<open>\<open>period = "24h"\<close>: the default applies when the argument is \<open>undefined\<close>.\<close>

definition getVPSUsage :: "runtime \<Rightarrow> server \<Rightarrow> json \<Rightarrow> json \<Rightarrow> json effect" where
  "getVPSUsage rt s vpsId period_arg =
     (let period = (if period_arg = JUndefined then JStr ''24h'' else period_arg)
      in try_step s (template rt [Lit ''/v1/vps/'', Sub vpsId, Lit ''/usage?period='', Sub period])
           (\<lambda>endpoint.
              then_return (makeRequest rt s endpoint None JUndefined)
                (\<lambda>result. ''VPS usage statistics: '' @ JSON_stringify rt result 2)))"

subsection \<open>Domain methods\<close>

definition listDomains :: "runtime \<Rightarrow> server \<Rightarrow> json effect" where
  "listDomains rt s =
     then_return (makeRequest rt s ''/v1/domains'' None JUndefined)
       (\<lambda>result. ''Domains: '' @ JSON_stringify rt result 2)"

definition getDomain :: "runtime \<Rightarrow> server \<Rightarrow> json \<Rightarrow> json effect" where
  "getDomain rt s domainId =
     try_step s (template rt [Lit ''/v1/domains/'', Sub domainId]) (\<lambda>endpoint.
       then_return (makeRequest rt s endpoint None JUndefined)
         (\<lambda>result. ''Domain details: '' @ JSON_stringify rt result 2))"

definition getDomainDNS :: "runtime \<Rightarrow> server \<Rightarrow> json \<Rightarrow> json effect" where
  "getDomainDNS rt s domainId =
     try_step s (template rt [Lit ''/v1/domains/'', Sub domainId, Lit ''/dns'']) (\<lambda>endpoint.
       then_return (makeRequest rt s endpoint None JUndefined)
         (\<lambda>result. ''DNS records: '' @ JSON_stringify rt result 2))"

definition createDNSRecord :: "runtime \<Rightarrow> server \<Rightarrow> json \<Rightarrow> json effect" where
  "createDNSRecord rt s data =
     try_step s (destructure data ''domain_id'' ''data'') (\<lambda>_.
       let domain_id = lookup data ''domain_id'';
           recordData = rest data [''domain_id'']
       in try_step s (template rt [Lit ''/v1/domains/'', Sub domain_id, Lit ''/dns'']) (\<lambda>endpoint.
            then_return (makeRequest rt s endpoint (Some ''POST'') recordData)
              (\<lambda>result. ''Created DNS record: '' @ JSON_stringify rt result 2)))"

definition updateDNSRecord :: "runtime \<Rightarrow> server \<Rightarrow> json \<Rightarrow> json effect" where
  "updateDNSRecord rt s data =
     try_step s (destructure data ''domain_id'' ''data'') (\<lambda>_.
       let domain_id = lookup data ''domain_id'';
           record_id = lookup data ''record_id'';
           recordData = rest data [''domain_id'', ''record_id'']
       in try_step s (template rt [Lit ''/v1/domains/'', Sub domain_id, Lit ''/dns/'', Sub record_id]) (\<lambda>endpoint.
            then_return (makeRequest rt s endpoint (Some ''PUT'') recordData)
              (\<lambda>result. ''Updated DNS record: '' @ JSON_stringify rt result 2)))"

text \<open>The result of the request is awaited and dropped; the text is a second template
  literal, evaluated after the request.\<close>

definition deleteDNSRecord :: "runtime \<Rightarrow> server \<Rightarrow> json \<Rightarrow> json \<Rightarrow> json effect" where
  "deleteDNSRecord rt s domainId recordId =
     try_step s (template rt [Lit ''/v1/domains/'', Sub domainId, Lit ''/dns/'', Sub recordId]) (\<lambda>endpoint.
       (case makeRequest rt s endpoint (Some ''DELETE'') JUndefined of
          (Inl error, s') \<Rightarrow> (Inl error, s')
        | (Inr result, s') \<Rightarrow>
            try_step s' (template rt [Lit ''Successfully deleted DNS record '', Sub recordId]) (\<lambda>t. (Inr (text_content t), s'))))"

subsection \<open>Hosting methods\<close>

definition listHostingAccounts :: "runtime \<Rightarrow> server \<Rightarrow> json effect" where
  "listHostingAccounts rt s =
     then_return (makeRequest rt s ''/v1/hosting'' None JUndefined)
       (\<lambda>result. ''Hosting accounts: '' @ JSON_stringify rt result 2)"

definition getHostingAccount :: "runtime \<Rightarrow> server \<Rightarrow> json \<Rightarrow> json effect" where
  "getHostingAccount rt s accountId =
     try_step s (template rt [Lit ''/v1/hosting/'', Sub accountId]) (\<lambda>endpoint.
       then_return (makeRequest rt s endpoint None JUndefined)
         (\<lambda>result. ''Hosting account details: '' @ JSON_stringify rt result 2))"

definition getHostingUsage :: "runtime \<Rightarrow> server \<Rightarrow> json \<Rightarrow> json effect" where
  "getHostingUsage rt s accountId =
     try_step s (template rt [Lit ''/v1/hosting/'', Sub accountId, Lit ''/usage'']) (\<lambda>endpoint.
       then_return (makeRequest rt s endpoint None JUndefined)
         (\<lambda>result. ''Hosting usage: '' @ JSON_stringify rt result 2))"

subsection \<open>Email methods\<close>

definition listEmailAccounts :: "runtime \<Rightarrow> server \<Rightarrow> json \<Rightarrow> json effect" where
  "listEmailAccounts rt s domainId =
     try_step s (template rt [Lit ''/v1/domains/'', Sub domainId, Lit ''/email'']) (\<lambda>endpoint.
       then_return (makeRequest rt s endpoint None JUndefined)
         (\<lambda>result. ''Email accounts: '' @ JSON_stringify rt result 2))"

definition createEmailAccount :: "runtime \<Rightarrow> server \<Rightarrow> json \<Rightarrow> json effect" where
  "createEmailAccount rt s data =
     try_step s (destructure data ''domain_id'' ''data'') (\<lambda>_.
       let domain_id = lookup data ''domain_id'';
           emailData = rest data [''domain_id'']
       in try_step s (template rt [Lit ''/v1/domains/'', Sub domain_id, Lit ''/email'']) (\<lambda>endpoint.
            then_return (makeRequest rt s endpoint (Some ''POST'') emailData)
              (\<lambda>result. ''Created email account: '' @ JSON_stringify rt result 2)))"

definition deleteEmailAccount :: "runtime \<Rightarrow> server \<Rightarrow> json \<Rightarrow> json \<Rightarrow> json effect" where
  "deleteEmailAccount rt s domainId email =
     try_step s (template rt [Lit ''/v1/domains/'', Sub domainId, Lit ''/email/'', Sub email]) (\<lambda>endpoint.
       (case makeRequest rt s endpoint (Some ''DELETE'') JUndefined of
          (Inl error, s') \<Rightarrow> (Inl error, s')
        | (Inr result, s') \<Rightarrow>
            try_step s' (template rt [Lit ''Successfully deleted email account '', Sub email]) (\<lambda>t. (Inr (text_content t), s'))))"

subsection \<open>SSL methods (stdio entry point only)\<close>

definition listSSLCertificates :: "runtime \<Rightarrow> server \<Rightarrow> json effect" where
  "listSSLCertificates rt s =
     then_return (makeRequest rt s ''/v1/ssl'' None JUndefined)
       (\<lambda>result. ''SSL certificates: '' @ JSON_stringify rt result 2)"

definition getSSLCertificate :: "runtime \<Rightarrow> server \<Rightarrow> json \<Rightarrow> json effect" where
  "getSSLCertificate rt s certificateId =
     try_step s (template rt [Lit ''/v1/ssl/'', Sub certificateId]) (\<lambda>endpoint.
       then_return (makeRequest rt s endpoint None JUndefined)
         (\<lambda>result. ''SSL certificate details: '' @ JSON_stringify rt result 2))"

definition createSSLCertificate :: "runtime \<Rightarrow> server \<Rightarrow> json \<Rightarrow> json effect" where
  "createSSLCertificate rt s data =
     then_return (makeRequest rt s ''/v1/ssl'' (Some ''POST'') data)
       (\<lambda>result. ''Created SSL certificate: '' @ JSON_stringify rt result 2)"

subsection \<open>Backup methods (stdio entry point only)\<close>

definition listBackups :: "runtime \<Rightarrow> server \<Rightarrow> json \<Rightarrow> json \<Rightarrow> json effect" where
  "listBackups rt s resourceId resourceType =
     try_step s (template rt [Lit ''/v1/'', Sub resourceType, Lit ''/'', Sub resourceId, Lit ''/backups'']) (\<lambda>endpoint.
       then_return (makeRequest rt s endpoint None JUndefined)
         (\<lambda>result. ''Backups: '' @ JSON_stringify rt result 2))"

definition createBackup :: "runtime \<Rightarrow> server \<Rightarrow> json \<Rightarrow> json effect" where
  "createBackup rt s data =
     try_step s (destructure data ''resource_id'' ''data'') (\<lambda>_.
       let resource_id = lookup data ''resource_id'';
           resource_type = lookup data ''resource_type'';
           backupData = rest data [''resource_id'', ''resource_type'']
       in try_step s (template rt [Lit ''/v1/'', Sub resource_type, Lit ''/'', Sub resource_id, Lit ''/backups'']) (\<lambda>endpoint.
            then_return (makeRequest rt s endpoint (Some ''POST'') backupData)
              (\<lambda>result. ''Created backup: '' @ JSON_stringify rt result 2)))"

definition restoreBackup :: "runtime \<Rightarrow> server \<Rightarrow> json \<Rightarrow> json \<Rightarrow> json effect" where
  "restoreBackup rt s backupId resourceId =
     try_step s (template rt [Lit ''/v1/backups/'', Sub backupId, Lit ''/restore'']) (\<lambda>endpoint.
       then_return (makeRequest rt s endpoint (Some ''POST'') (JObj [(''resource_id'', resourceId)]))
         (\<lambda>result. ''Restore backup result: '' @ JSON_stringify rt result 2))"

subsection \<open>Account methods\<close>

definition getAccountInfo :: "runtime \<Rightarrow> server \<Rightarrow> json effect" where
  "getAccountInfo rt s =
     then_return (makeRequest rt s ''/v1/account'' None JUndefined)
       (\<lambda>result. ''Account information: '' @ JSON_stringify rt result 2)"

text \<open>\<open>params = {}\<close>, \<open>limit = 10\<close>, \<open>offset = 0\<close>: each default applies to \<open>undefined\<close> only
  (stdio entry point only). In a pattern whose properties carry defaults, \<open>null\<close> fails at
  the read of the first property, with the message of a property read.\<close>

definition getInvoices :: "runtime \<Rightarrow> server \<Rightarrow> json \<Rightarrow> json effect" where
  "getInvoices rt s params_arg =
     (let params = (if params_arg = JUndefined then JObj [] else params_arg)
      in try_step s (get_prop params ''limit'') (\<lambda>limit_read.
           let limit = (if limit_read = JUndefined then JNum 10 else limit_read);
               offset = (if lookup params ''offset'' = JUndefined then JNum 0 else lookup params ''offset'')
           in try_step s (template rt [Lit ''/v1/invoices?limit='', Sub limit, Lit ''&offset='', Sub offset])
                (\<lambda>endpoint.
                   then_return (makeRequest rt s endpoint None JUndefined)
                     (\<lambda>result. ''Invoices: '' @ JSON_stringify rt result 2))))"

section \<open>The stdio entry point (index.js)\<close>

text \<open>The descriptors that the \<open>ListToolsRequestSchema\<close> handler returns, in its order.\<close>

definition index_tools :: "json list" where
  "index_tools =
    [JObj
       [(''name'', JStr ''list_vps''),
        (''description'', JStr ''List all VPS instances''),
        (''inputSchema'', JObj [(''type'', JStr ''object''), (''properties'', JObj [])])],
     JObj
       [(''name'', JStr ''get_vps''),
        (''description'', JStr ''Get details of a specific VPS instance''),
        (''inputSchema'', JObj
         [(''type'', JStr ''object''),
          (''properties'', JObj
           [(''vps_id'', JObj [(''type'', JStr ''string''), (''description'', JStr ''VPS ID'')])]),
          (''required'', JArr [JStr ''vps_id''])])],
     JObj
       [(''name'', JStr ''start_vps''),
        (''description'', JStr ''Start a VPS instance''),
        (''inputSchema'', JObj
         [(''type'', JStr ''object''),
          (''properties'', JObj
           [(''vps_id'', JObj [(''type'', JStr ''string''), (''description'', JStr ''VPS ID'')])]),
          (''required'', JArr [JStr ''vps_id''])])],
     JObj
       [(''name'', JStr ''stop_vps''),
        (''description'', JStr ''Stop a VPS instance''),
        (''inputSchema'', JObj
         [(''type'', JStr ''object''),
          (''properties'', JObj
           [(''vps_id'', JObj [(''type'', JStr ''string''), (''description'', JStr ''VPS ID'')])]),
          (''required'', JArr [JStr ''vps_id''])])],
     JObj
       [(''name'', JStr ''restart_vps''),
        (''description'', JStr ''Restart a VPS instance''),
        (''inputSchema'', JObj
         [(''type'', JStr ''object''),
          (''properties'', JObj
           [(''vps_id'', JObj [(''type'', JStr ''string''), (''description'', JStr ''VPS ID'')])]),
          (''required'', JArr [JStr ''vps_id''])])],
     JObj
       [(''name'', JStr ''get_vps_usage''),
        (''description'', JStr ''Get resource usage statistics for a VPS''),
        (''inputSchema'', JObj
         [(''type'', JStr ''object''),
          (''properties'', JObj
           [(''vps_id'', JObj [(''type'', JStr ''string''), (''description'', JStr ''VPS ID'')]),
            (''period'', JObj
             [(''type'', JStr ''string''),
              (''description'', JStr ''Time period for statistics''),
              (''enum'', JArr [JStr ''1h'', JStr ''24h'', JStr ''7d'', JStr ''30d''])])]),
          (''required'', JArr [JStr ''vps_id''])])],
     JObj
       [(''name'', JStr ''list_domains''),
        (''description'', JStr ''List all domains''),
        (''inputSchema'', JObj [(''type'', JStr ''object''), (''properties'', JObj [])])],
     JObj
       [(''name'', JStr ''get_domain''),
        (''description'', JStr ''Get details of a specific domain''),
        (''inputSchema'', JObj
         [(''type'', JStr ''object''),
          (''properties'', JObj
           [(''domain_id'', JObj [(''type'', JStr ''string''), (''description'', JStr ''Domain ID'')])]),
          (''required'', JArr [JStr ''domain_id''])])],
     JObj
       [(''name'', JStr ''get_domain_dns''),
        (''description'', JStr ''Get DNS records for a domain''),
        (''inputSchema'', JObj
         [(''type'', JStr ''object''),
          (''properties'', JObj
           [(''domain_id'', JObj [(''type'', JStr ''string''), (''description'', JStr ''Domain ID'')])]),
          (''required'', JArr [JStr ''domain_id''])])],
     JObj
       [(''name'', JStr ''create_dns_record''),
        (''description'', JStr ''Create a new DNS record''),
        (''inputSchema'', JObj
         [(''type'', JStr ''object''),
          (''properties'', JObj
           [(''domain_id'', JObj [(''type'', JStr ''string''), (''description'', JStr ''Domain ID'')]),
            (''type'', JObj
             [(''type'', JStr ''string''),
              (''description'', JStr ''DNS record type''),
              (''enum'', JArr
               [JStr ''A'',
                JStr ''AAAA'',
                JStr ''CNAME'',
                JStr ''MX'',
                JStr ''TXT'',
                JStr ''NS'',
                JStr ''SRV''])]),
            (''name'', JObj [(''type'', JStr ''string''), (''description'', JStr ''Record name'')]),
            (''content'', JObj [(''type'', JStr ''string''), (''description'', JStr ''Record content/value'')]),
            (''ttl'', JObj
             [(''type'', JStr ''number''),
              (''description'', JStr ''Time to live (seconds)'')]),
            (''priority'', JObj
             [(''type'', JStr ''number''),
              (''description'', JStr ''Priority (for MX records)'')])]),
          (''required'', JArr [JStr ''domain_id'', JStr ''type'', JStr ''name'', JStr ''content''])])],
     JObj
       [(''name'', JStr ''update_dns_record''),
        (''description'', JStr ''Update an existing DNS record''),
        (''inputSchema'', JObj
         [(''type'', JStr ''object''),
          (''properties'', JObj
           [(''domain_id'', JObj [(''type'', JStr ''string''), (''description'', JStr ''Domain ID'')]),
            (''record_id'', JObj [(''type'', JStr ''string''), (''description'', JStr ''DNS record ID'')]),
            (''type'', JObj
             [(''type'', JStr ''string''),
              (''description'', JStr ''DNS record type''),
              (''enum'', JArr
               [JStr ''A'',
                JStr ''AAAA'',
                JStr ''CNAME'',
                JStr ''MX'',
                JStr ''TXT'',
                JStr ''NS'',
                JStr ''SRV''])]),
            (''name'', JObj [(''type'', JStr ''string''), (''description'', JStr ''Record name'')]),
            (''content'', JObj [(''type'', JStr ''string''), (''description'', JStr ''Record content/value'')]),
            (''ttl'', JObj
             [(''type'', JStr ''number''),
              (''description'', JStr ''Time to live (seconds)'')]),
            (''priority'', JObj
             [(''type'', JStr ''number''),
              (''description'', JStr ''Priority (for MX records)'')])]),
          (''required'', JArr [JStr ''domain_id'', JStr ''record_id''])])],
     JObj
       [(''name'', JStr ''delete_dns_record''),
        (''description'', JStr ''Delete a DNS record''),
        (''inputSchema'', JObj
         [(''type'', JStr ''object''),
          (''properties'', JObj
           [(''domain_id'', JObj [(''type'', JStr ''string''), (''description'', JStr ''Domain ID'')]),
            (''record_id'', JObj [(''type'', JStr ''string''), (''description'', JStr ''DNS record ID'')])]),
          (''required'', JArr [JStr ''domain_id'', JStr ''record_id''])])],
     JObj
       [(''name'', JStr ''list_hosting_accounts''),
        (''description'', JStr ''List all hosting accounts''),
        (''inputSchema'', JObj [(''type'', JStr ''object''), (''properties'', JObj [])])],
     JObj
       [(''name'', JStr ''get_hosting_account''),
        (''description'', JStr ''Get details of a specific hosting account''),
        (''inputSchema'', JObj
         [(''type'', JStr ''object''),
          (''properties'', JObj
           [(''account_id'', JObj [(''type'', JStr ''string''), (''description'', JStr ''Hosting account ID'')])]),
          (''required'', JArr [JStr ''account_id''])])],
     JObj
       [(''name'', JStr ''get_hosting_usage''),
        (''description'', JStr ''Get resource usage for a hosting account''),
        (''inputSchema'', JObj
         [(''type'', JStr ''object''),
          (''properties'', JObj
           [(''account_id'', JObj [(''type'', JStr ''string''), (''description'', JStr ''Hosting account ID'')])]),
          (''required'', JArr [JStr ''account_id''])])],
     JObj
       [(''name'', JStr ''list_email_accounts''),
        (''description'', JStr ''List email accounts for a domain''),
        (''inputSchema'', JObj
         [(''type'', JStr ''object''),
          (''properties'', JObj
           [(''domain_id'', JObj [(''type'', JStr ''string''), (''description'', JStr ''Domain ID'')])]),
          (''required'', JArr [JStr ''domain_id''])])],
     JObj
       [(''name'', JStr ''create_email_account''),
        (''description'', JStr ''Create a new email account''),
        (''inputSchema'', JObj
         [(''type'', JStr ''object''),
          (''properties'', JObj
           [(''domain_id'', JObj [(''type'', JStr ''string''), (''description'', JStr ''Domain ID'')]),
            (''email'', JObj [(''type'', JStr ''string''), (''description'', JStr ''Email address'')]),
            (''password'', JObj [(''type'', JStr ''string''), (''description'', JStr ''Password'')]),
            (''quota'', JObj [(''type'', JStr ''number''), (''description'', JStr ''Quota in MB'')])]),
          (''required'', JArr [JStr ''domain_id'', JStr ''email'', JStr ''password''])])],
     JObj
       [(''name'', JStr ''delete_email_account''),
        (''description'', JStr ''Delete an email account''),
        (''inputSchema'', JObj
         [(''type'', JStr ''object''),
          (''properties'', JObj
           [(''domain_id'', JObj [(''type'', JStr ''string''), (''description'', JStr ''Domain ID'')]),
            (''email'', JObj [(''type'', JStr ''string''), (''description'', JStr ''Email address'')])]),
          (''required'', JArr [JStr ''domain_id'', JStr ''email''])])],
     JObj
       [(''name'', JStr ''list_ssl_certificates''),
        (''description'', JStr ''List SSL certificates''),
        (''inputSchema'', JObj [(''type'', JStr ''object''), (''properties'', JObj [])])],
     JObj
       [(''name'', JStr ''get_ssl_certificate''),
        (''description'', JStr ''Get details of an SSL certificate''),
        (''inputSchema'', JObj
         [(''type'', JStr ''object''),
          (''properties'', JObj
           [(''certificate_id'', JObj [(''type'', JStr ''string''), (''description'', JStr ''SSL certificate ID'')])]),
          (''required'', JArr [JStr ''certificate_id''])])],
     JObj
       [(''name'', JStr ''create_ssl_certificate''),
        (''description'', JStr ''Create/order a new SSL certificate''),
        (''inputSchema'', JObj
         [(''type'', JStr ''object''),
          (''properties'', JObj
           [(''domain_id'', JObj [(''type'', JStr ''string''), (''description'', JStr ''Domain ID'')]),
            (''type'', JObj
             [(''type'', JStr ''string''),
              (''description'', JStr ''Certificate type''),
              (''enum'', JArr [JStr ''lets_encrypt'', JStr ''paid''])])]),
          (''required'', JArr [JStr ''domain_id'', JStr ''type''])])],
     JObj
       [(''name'', JStr ''list_backups''),
        (''description'', JStr ''List backups for a hosting account or VPS''),
        (''inputSchema'', JObj
         [(''type'', JStr ''object''),
          (''properties'', JObj
           [(''resource_id'', JObj
             [(''type'', JStr ''string''),
              (''description'', JStr ''Resource ID (hosting account or VPS)'')]),
            (''resource_type'', JObj
             [(''type'', JStr ''string''),
              (''description'', JStr ''Resource type''),
              (''enum'', JArr [JStr ''hosting'', JStr ''vps''])])]),
          (''required'', JArr [JStr ''resource_id'', JStr ''resource_type''])])],
     JObj
       [(''name'', JStr ''create_backup''),
        (''description'', JStr ''Create a manual backup''),
        (''inputSchema'', JObj
         [(''type'', JStr ''object''),
          (''properties'', JObj
           [(''resource_id'', JObj
             [(''type'', JStr ''string''),
              (''description'', JStr ''Resource ID (hosting account or VPS)'')]),
            (''resource_type'', JObj
             [(''type'', JStr ''string''),
              (''description'', JStr ''Resource type''),
              (''enum'', JArr [JStr ''hosting'', JStr ''vps''])]),
            (''description'', JObj [(''type'', JStr ''string''), (''description'', JStr ''Backup description'')])]),
          (''required'', JArr [JStr ''resource_id'', JStr ''resource_type''])])],
     JObj
       [(''name'', JStr ''restore_backup''),
        (''description'', JStr ''Restore from a backup''),
        (''inputSchema'', JObj
         [(''type'', JStr ''object''),
          (''properties'', JObj
           [(''backup_id'', JObj [(''type'', JStr ''string''), (''description'', JStr ''Backup ID'')]),
            (''resource_id'', JObj
             [(''type'', JStr ''string''),
              (''description'', JStr ''Resource ID to restore to'')])]),
          (''required'', JArr [JStr ''backup_id'', JStr ''resource_id''])])],
     JObj
       [(''name'', JStr ''get_account_info''),
        (''description'', JStr ''Get account information and balance''),
        (''inputSchema'', JObj [(''type'', JStr ''object''), (''properties'', JObj [])])],
     JObj
       [(''name'', JStr ''get_invoices''),
        (''description'', JStr ''List invoices''),
        (''inputSchema'', JObj
         [(''type'', JStr ''object''),
          (''properties'', JObj
           [(''limit'', JObj
             [(''type'', JStr ''number''),
              (''description'', JStr ''Number of invoices to return'')]),
            (''offset'', JObj
             [(''type'', JStr ''number''),
              (''description'', JStr ''Offset for pagination'')])])])]]"

text \<open>The handler reads nothing and writes nothing: it resolves to the literal.\<close>

definition index_listTools :: "server \<Rightarrow> json \<times> server" where
  "index_listTools s = (JObj [(''tools'', JArr index_tools)], s)"

text \<open>The \<open>switch (name)\<close> of the \<open>CallToolRequestSchema\<close> handler: the body of its \<open>try\<close>.
  A case matches by strict equality, so only a string can match; the arguments of a
  handler call are read left to right before the call.\<close>

definition index_switch :: "runtime \<Rightarrow> server \<Rightarrow> json \<Rightarrow> json \<Rightarrow> json effect" where
  "index_switch rt s name args =
    (if name = JStr ''list_vps'' then
       listVPS rt s
     else if name = JStr ''get_vps'' then
       try_step s (get_prop args ''vps_id'') (\<lambda>vps_id. getVPS rt s vps_id)
     else if name = JStr ''start_vps'' then
       try_step s (get_prop args ''vps_id'') (\<lambda>vps_id. startVPS rt s vps_id)
     else if name = JStr ''stop_vps'' then
       try_step s (get_prop args ''vps_id'') (\<lambda>vps_id. stopVPS rt s vps_id)
     else if name = JStr ''restart_vps'' then
       try_step s (get_prop args ''vps_id'') (\<lambda>vps_id. restartVPS rt s vps_id)
     else if name = JStr ''get_vps_usage'' then
       try_step s (get_prop args ''vps_id'') (\<lambda>vps_id.
       try_step s (get_prop args ''period'') (\<lambda>period. getVPSUsage rt s vps_id period))
     else if name = JStr ''list_domains'' then
       listDomains rt s
     else if name = JStr ''get_domain'' then
       try_step s (get_prop args ''domain_id'') (\<lambda>domain_id. getDomain rt s domain_id)
     else if name = JStr ''get_domain_dns'' then
       try_step s (get_prop args ''domain_id'') (\<lambda>domain_id. getDomainDNS rt s domain_id)
     else if name = JStr ''create_dns_record'' then
       createDNSRecord rt s args
     else if name = JStr ''update_dns_record'' then
       updateDNSRecord rt s args
     else if name = JStr ''delete_dns_record'' then
       try_step s (get_prop args ''domain_id'') (\<lambda>domain_id.
       try_step s (get_prop args ''record_id'') (\<lambda>record_id. deleteDNSRecord rt s domain_id record_id))
     else if name = JStr ''list_hosting_accounts'' then
       listHostingAccounts rt s
     else if name = JStr ''get_hosting_account'' then
       try_step s (get_prop args ''account_id'') (\<lambda>account_id. getHostingAccount rt s account_id)
     else if name = JStr ''get_hosting_usage'' then
       try_step s (get_prop args ''account_id'') (\<lambda>account_id. getHostingUsage rt s account_id)
     else if name = JStr ''list_email_accounts'' then
       try_step s (get_prop args ''domain_id'') (\<lambda>domain_id. listEmailAccounts rt s domain_id)
     else if name = JStr ''create_email_account'' then
       createEmailAccount rt s args
     else if name = JStr ''delete_email_account'' then
       try_step s (get_prop args ''domain_id'') (\<lambda>domain_id.
       try_step s (get_prop args ''email'') (\<lambda>email. deleteEmailAccount rt s domain_id email))
     else if name = JStr ''list_ssl_certificates'' then
       listSSLCertificates rt s
     else if name = JStr ''get_ssl_certificate'' then
       try_step s (get_prop args ''certificate_id'') (\<lambda>certificate_id. getSSLCertificate rt s certificate_id)
     else if name = JStr ''create_ssl_certificate'' then
       createSSLCertificate rt s args
     else if name = JStr ''list_backups'' then
       try_step s (get_prop args ''resource_id'') (\<lambda>resource_id.
       try_step s (get_prop args ''resource_type'') (\<lambda>resource_type. listBackups rt s resource_id resource_type))
     else if name = JStr ''create_backup'' then
       createBackup rt s args
     else if name = JStr ''restore_backup'' then
       try_step s (get_prop args ''backup_id'') (\<lambda>backup_id.
       try_step s (get_prop args ''resource_id'') (\<lambda>resource_id. restoreBackup rt s backup_id resource_id))
     else if name = JStr ''get_account_info'' then
       getAccountInfo rt s
     else if name = JStr ''get_invoices'' then
       getInvoices rt s args
     else try_step s (template rt [Lit ''Unknown tool: '', Sub name])
            (\<lambda>text. (Inl (Error text), s)))"

text \<open>\<open>catch (error) { return {content: [{type: "text", text: `Error: ${error.message}`}]} }\<close>\<close>

definition catch_as_text :: "json effect \<Rightarrow> json effect" where
  "catch_as_text e =
     (case e of
        (Inl error, s') \<Rightarrow> (Inr (text_content (''Error: '' @ message error)), s')
      | (Inr result, s') \<Rightarrow> (Inr result, s'))"

text \<open>The handler itself: the destructuring of \<open>request.params\<close> stands before the
  \<open>try\<close>. \<open>Inl\<close> is a rejection, which the protocol layer turns into an error response;
  \<open>Inr\<close> is the returned value, sent in a result response.\<close>

definition index_callTool :: "runtime \<Rightarrow> server \<Rightarrow> json \<Rightarrow> json effect" where
  "index_callTool rt s request =
     try_step s (get_prop request ''params'') (\<lambda>params.
       try_step s (destructure params ''name'' ''request.params'') (\<lambda>_.
         let name = lookup params ''name'';
             args = lookup params ''arguments''
         in catch_as_text (index_switch rt s name args)))"

section \<open>The HTTP/SSE entry point\<close>

text \<open>The descriptors that \<open>handleListTools\<close> returns, in its order.\<close>

definition http_tools :: "json list" where
  "http_tools =
    [JObj
       [(''name'', JStr ''list_vps''),
        (''description'', JStr ''List all VPS instances''),
        (''inputSchema'', JObj [(''type'', JStr ''object''), (''properties'', JObj [])])],
     JObj
       [(''name'', JStr ''get_vps''),
        (''description'', JStr ''Get details of a specific VPS instance''),
        (''inputSchema'', JObj
         [(''type'', JStr ''object''),
          (''properties'', JObj
           [(''vps_id'', JObj [(''type'', JStr ''string''), (''description'', JStr ''VPS ID'')])]),
          (''required'', JArr [JStr ''vps_id''])])],
     JObj
       [(''name'', JStr ''start_vps''),
        (''description'', JStr ''Start a VPS instance''),
        (''inputSchema'', JObj
         [(''type'', JStr ''object''),
          (''properties'', JObj
           [(''vps_id'', JObj [(''type'', JStr ''string''), (''description'', JStr ''VPS ID'')])]),
          (''required'', JArr [JStr ''vps_id''])])],
     JObj
       [(''name'', JStr ''stop_vps''),
        (''description'', JStr ''Stop a VPS instance''),
        (''inputSchema'', JObj
         [(''type'', JStr ''object''),
          (''properties'', JObj
           [(''vps_id'', JObj [(''type'', JStr ''string''), (''description'', JStr ''VPS ID'')])]),
          (''required'', JArr [JStr ''vps_id''])])],
     JObj
       [(''name'', JStr ''restart_vps''),
        (''description'', JStr ''Restart a VPS instance''),
        (''inputSchema'', JObj
         [(''type'', JStr ''object''),
          (''properties'', JObj
           [(''vps_id'', JObj [(''type'', JStr ''string''), (''description'', JStr ''VPS ID'')])]),
          (''required'', JArr [JStr ''vps_id''])])],
     JObj
       [(''name'', JStr ''get_vps_usage''),
        (''description'', JStr ''Get resource usage statistics for a VPS''),
        (''inputSchema'', JObj
         [(''type'', JStr ''object''),
          (''properties'', JObj
           [(''vps_id'', JObj [(''type'', JStr ''string''), (''description'', JStr ''VPS ID'')]),
            (''period'', JObj
             [(''type'', JStr ''string''),
              (''description'', JStr ''Time period for statistics''),
              (''enum'', JArr [JStr ''1h'', JStr ''24h'', JStr ''7d'', JStr ''30d''])])]),
          (''required'', JArr [JStr ''vps_id''])])],
     JObj
       [(''name'', JStr ''list_domains''),
        (''description'', JStr ''List all domains''),
        (''inputSchema'', JObj [(''type'', JStr ''object''), (''properties'', JObj [])])],
     JObj
       [(''name'', JStr ''get_domain''),
        (''description'', JStr ''Get details of a specific domain''),
        (''inputSchema'', JObj
         [(''type'', JStr ''object''),
          (''properties'', JObj
           [(''domain_id'', JObj [(''type'', JStr ''string''), (''description'', JStr ''Domain ID'')])]),
          (''required'', JArr [JStr ''domain_id''])])],
     JObj
       [(''name'', JStr ''get_domain_dns''),
        (''description'', JStr ''Get DNS records for a domain''),
        (''inputSchema'', JObj
         [(''type'', JStr ''object''),
          (''properties'', JObj
           [(''domain_id'', JObj [(''type'', JStr ''string''), (''description'', JStr ''Domain ID'')])]),
          (''required'', JArr [JStr ''domain_id''])])],
     JObj
       [(''name'', JStr ''create_dns_record''),
        (''description'', JStr ''Create a new DNS record''),
        (''inputSchema'', JObj
         [(''type'', JStr ''object''),
          (''properties'', JObj
           [(''domain_id'', JObj [(''type'', JStr ''string''), (''description'', JStr ''Domain ID'')]),
            (''type'', JObj
             [(''type'', JStr ''string''),
              (''description'', JStr ''DNS record type''),
              (''enum'', JArr
               [JStr ''A'',
                JStr ''AAAA'',
                JStr ''CNAME'',
                JStr ''MX'',
                JStr ''TXT'',
                JStr ''NS'',
                JStr ''SRV''])]),
            (''name'', JObj [(''type'', JStr ''string''), (''description'', JStr ''Record name'')]),
            (''content'', JObj [(''type'', JStr ''string''), (''description'', JStr ''Record content/value'')]),
            (''ttl'', JObj
             [(''type'', JStr ''number''),
              (''description'', JStr ''Time to live (seconds)'')]),
            (''priority'', JObj
             [(''type'', JStr ''number''),
              (''description'', JStr ''Priority (for MX records)'')])]),
          (''required'', JArr [JStr ''domain_id'', JStr ''type'', JStr ''name'', JStr ''content''])])],
     JObj
       [(''name'', JStr ''update_dns_record''),
        (''description'', JStr ''Update an existing DNS record''),
        (''inputSchema'', JObj
         [(''type'', JStr ''object''),
          (''properties'', JObj
           [(''domain_id'', JObj [(''type'', JStr ''string''), (''description'', JStr ''Domain ID'')]),
            (''record_id'', JObj [(''type'', JStr ''string''), (''description'', JStr ''DNS record ID'')]),
            (''type'', JObj
             [(''type'', JStr ''string''),
              (''description'', JStr ''DNS record type''),
              (''enum'', JArr
               [JStr ''A'',
                JStr ''AAAA'',
                JStr ''CNAME'',
                JStr ''MX'',
                JStr ''TXT'',
                JStr ''NS'',
                JStr ''SRV''])]),
            (''name'', JObj [(''type'', JStr ''string''), (''description'', JStr ''Record name'')]),
            (''content'', JObj [(''type'', JStr ''string''), (''description'', JStr ''Record content/value'')]),
            (''ttl'', JObj
             [(''type'', JStr ''number''),
              (''description'', JStr ''Time to live (seconds)'')]),
            (''priority'', JObj
             [(''type'', JStr ''number''),
              (''description'', JStr ''Priority (for MX records)'')])]),
          (''required'', JArr [JStr ''domain_id'', JStr ''record_id''])])],
     JObj
       [(''name'', JStr ''delete_dns_record''),
        (''description'', JStr ''Delete a DNS record''),
        (''inputSchema'', JObj
         [(''type'', JStr ''object''),
          (''properties'', JObj
           [(''domain_id'', JObj [(''type'', JStr ''string''), (''description'', JStr ''Domain ID'')]),
            (''record_id'', JObj [(''type'', JStr ''string''), (''description'', JStr ''DNS record ID'')])]),
          (''required'', JArr [JStr ''domain_id'', JStr ''record_id''])])],
     JObj
       [(''name'', JStr ''list_hosting_accounts''),
        (''description'', JStr ''List all hosting accounts''),
        (''inputSchema'', JObj [(''type'', JStr ''object''), (''properties'', JObj [])])],
     JObj
       [(''name'', JStr ''get_hosting_account''),
        (''description'', JStr ''Get details of a specific hosting account''),
        (''inputSchema'', JObj
         [(''type'', JStr ''object''),
          (''properties'', JObj
           [(''account_id'', JObj [(''type'', JStr ''string''), (''description'', JStr ''Hosting account ID'')])]),
          (''required'', JArr [JStr ''account_id''])])],
     JObj
       [(''name'', JStr ''get_hosting_usage''),
        (''description'', JStr ''Get resource usage for a hosting account''),
        (''inputSchema'', JObj
         [(''type'', JStr ''object''),
          (''properties'', JObj
           [(''account_id'', JObj [(''type'', JStr ''string''), (''description'', JStr ''Hosting account ID'')])]),
          (''required'', JArr [JStr ''account_id''])])],
     JObj
       [(''name'', JStr ''list_email_accounts''),
        (''description'', JStr ''List email accounts for a domain''),
        (''inputSchema'', JObj
         [(''type'', JStr ''object''),
          (''properties'', JObj
           [(''domain_id'', JObj [(''type'', JStr ''string''), (''description'', JStr ''Domain ID'')])]),
          (''required'', JArr [JStr ''domain_id''])])],
     JObj
       [(''name'', JStr ''create_email_account''),
        (''description'', JStr ''Create a new email account''),
        (''inputSchema'', JObj
         [(''type'', JStr ''object''),
          (''properties'', JObj
           [(''domain_id'', JObj [(''type'', JStr ''string''), (''description'', JStr ''Domain ID'')]),
            (''email'', JObj [(''type'', JStr ''string''), (''description'', JStr ''Email address'')]),
            (''password'', JObj [(''type'', JStr ''string''), (''description'', JStr ''Password'')]),
            (''quota'', JObj [(''type'', JStr ''number''), (''description'', JStr ''Quota in MB'')])]),
          (''required'', JArr [JStr ''domain_id'', JStr ''email'', JStr ''password''])])],
     JObj
       [(''name'', JStr ''delete_email_account''),
        (''description'', JStr ''Delete an email account''),
        (''inputSchema'', JObj
         [(''type'', JStr ''object''),
          (''properties'', JObj
           [(''domain_id'', JObj [(''type'', JStr ''string''), (''description'', JStr ''Domain ID'')]),
            (''email'', JObj [(''type'', JStr ''string''), (''description'', JStr ''Email address'')])]),
          (''required'', JArr [JStr ''domain_id'', JStr ''email''])])],
     JObj
       [(''name'', JStr ''get_account_info''),
        (''description'', JStr ''Get account information and balance''),
        (''inputSchema'', JObj [(''type'', JStr ''object''), (''properties'', JObj [])])]]"

definition handleListTools :: "server \<Rightarrow> json \<times> server" where
  "handleListTools s = (JObj [(''tools'', JArr http_tools)], s)"

text \<open>The \<open>switch (name)\<close> of \<open>handleCallTool\<close>.\<close>

definition http_switch :: "runtime \<Rightarrow> server \<Rightarrow> json \<Rightarrow> json \<Rightarrow> json effect" where
  "http_switch rt s name args =
    (if name = JStr ''list_vps'' then
       listVPS rt s
     else if name = JStr ''get_vps'' then
       try_step s (get_prop args ''vps_id'') (\<lambda>vps_id. getVPS rt s vps_id)
     else if name = JStr ''start_vps'' then
       try_step s (get_prop args ''vps_id'') (\<lambda>vps_id. startVPS rt s vps_id)
     else if name = JStr ''stop_vps'' then
       try_step s (get_prop args ''vps_id'') (\<lambda>vps_id. stopVPS rt s vps_id)
     else if name = JStr ''restart_vps'' then
       try_step s (get_prop args ''vps_id'') (\<lambda>vps_id. restartVPS rt s vps_id)
     else if name = JStr ''get_vps_usage'' then
       try_step s (get_prop args ''vps_id'') (\<lambda>vps_id.
       try_step s (get_prop args ''period'') (\<lambda>period. getVPSUsage rt s vps_id period))
     else if name = JStr ''list_domains'' then
       listDomains rt s
     else if name = JStr ''get_domain'' then
       try_step s (get_prop args ''domain_id'') (\<lambda>domain_id. getDomain rt s domain_id)
     else if name = JStr ''get_domain_dns'' then
       try_step s (get_prop args ''domain_id'') (\<lambda>domain_id. getDomainDNS rt s domain_id)
     else if name = JStr ''create_dns_record'' then
       createDNSRecord rt s args
     else if name = JStr ''update_dns_record'' then
       updateDNSRecord rt s args
     else if name = JStr ''delete_dns_record'' then
       try_step s (get_prop args ''domain_id'') (\<lambda>domain_id.
       try_step s (get_prop args ''record_id'') (\<lambda>record_id. deleteDNSRecord rt s domain_id record_id))
     else if name = JStr ''list_hosting_accounts'' then
       listHostingAccounts rt s
     else if name = JStr ''get_hosting_account'' then
       try_step s (get_prop args ''account_id'') (\<lambda>account_id. getHostingAccount rt s account_id)
     else if name = JStr ''get_hosting_usage'' then
       try_step s (get_prop args ''account_id'') (\<lambda>account_id. getHostingUsage rt s account_id)
     else if name = JStr ''list_email_accounts'' then
       try_step s (get_prop args ''domain_id'') (\<lambda>domain_id. listEmailAccounts rt s domain_id)
     else if name = JStr ''create_email_account'' then
       createEmailAccount rt s args
     else if name = JStr ''delete_email_account'' then
       try_step s (get_prop args ''domain_id'') (\<lambda>domain_id.
       try_step s (get_prop args ''email'') (\<lambda>email. deleteEmailAccount rt s domain_id email))
     else if name = JStr ''get_account_info'' then
       getAccountInfo rt s
     else try_step s (template rt [Lit ''Unknown tool: '', Sub name])
            (\<lambda>text. (Inl (Error text), s)))"

definition handleCallTool :: "runtime \<Rightarrow> server \<Rightarrow> json \<Rightarrow> json effect" where
  "handleCallTool rt s params =
     try_step s (destructure params ''name'' ''params'') (\<lambda>_.
       let name = lookup params ''name'';
           args = lookup params ''arguments''
       in catch_as_text (http_switch rt s name args))"

text \<open>\<open>setupToolHandlers\<close>: what the protocol server (SSE, or stdio under \<open>MCP_MODE=stdio\<close>)
  calls for \<open>tools/list\<close> and \<open>tools/call\<close>.\<close>

definition http_listTools :: "server \<Rightarrow> json \<times> server" where
  "http_listTools s = handleListTools s"

definition http_callTool :: "runtime \<Rightarrow> server \<Rightarrow> json \<Rightarrow> json effect" where
  "http_callTool rt s request =
     try_step s (get_prop request ''params'') (\<lambda>params. handleCallTool rt s params)"

subsection \<open>POST /mcp\<close>

text \<open>What \<open>res.status(n).json(v)\<close> sends (\<open>res.json(v)\<close> alone sends status 200). A
  property of \<open>v\<close> whose value is \<open>undefined\<close> is left out of the text that goes on
  the wire.\<close>

record http_reply =
  reply_status :: nat
  reply_json :: json

definition rpc_error :: "int \<Rightarrow> string \<Rightarrow> (string \<times> json) list \<Rightarrow> json \<Rightarrow> json" where
  "rpc_error code msg extra rid =
     JObj [(''jsonrpc'', JStr ''2.0''),
           (''error'', JObj ([(''code'', JNum (of_int code)), (''message'', JStr msg)] @ extra)),
           (''id'', rid)]"

definition rpc_result :: "json \<Rightarrow> json \<Rightarrow> json" where
  "rpc_result response rid = JObj [(''jsonrpc'', JStr ''2.0''), (''result'', response), (''id'', rid)]"

text \<open>The body of the route's \<open>try\<close>; \<open>request\<close> is \<open>req.body\<close>.\<close>

definition mcp_try :: "runtime \<Rightarrow> server \<Rightarrow> json \<Rightarrow> http_reply effect" where
  "mcp_try rt s request =
     try_step s (get_prop request ''jsonrpc'') (\<lambda>jsonrpc.
       if \<not> truthy jsonrpc \<or> jsonrpc \<noteq> JStr ''2.0'' then
         try_step s (get_prop request ''id'') (\<lambda>rid.
           (Inr \<lparr>reply_status = 400,
                 reply_json = rpc_error (- 32600) ''Invalid Request'' [] (or_else rid JNull)\<rparr>, s))
       else
         try_step s (get_prop request ''method'') (\<lambda>method.
           if method = JStr ''tools/list'' then
             (case handleListTools s of
                (response, s') \<Rightarrow>
                  try_step s' (get_prop request ''id'') (\<lambda>rid.
                    (Inr \<lparr>reply_status = 200, reply_json = rpc_result response rid\<rparr>, s')))
           else if method = JStr ''tools/call'' then
             try_step s (get_prop request ''params'') (\<lambda>params.
               (case handleCallTool rt s params of
                  (Inl error, s') \<Rightarrow> (Inl error, s')
                | (Inr response, s') \<Rightarrow>
                    try_step s' (get_prop request ''id'') (\<lambda>rid.
                      (Inr \<lparr>reply_status = 200, reply_json = rpc_result response rid\<rparr>, s'))))
           else
             try_step s (get_prop request ''id'') (\<lambda>rid.
               (Inr \<lparr>reply_status = 400,
                     reply_json = rpc_error (- 32601) ''Method not found'' [] rid\<rparr>, s))))"

text \<open>The route handler: the \<open>catch\<close> answers 500. \<open>Inl\<close> here means that the \<open>catch\<close>
  block itself threw and no reply was sent.\<close>

definition post_mcp :: "runtime \<Rightarrow> server \<Rightarrow> json \<Rightarrow> http_reply effect" where
  "post_mcp rt s body =
     (case mcp_try rt s body of
        (Inr reply, s') \<Rightarrow> (Inr reply, s')
      | (Inl error, s') \<Rightarrow>
          try_step s' (get_prop body ''id'') (\<lambda>rid.
            (Inr \<lparr>reply_status = 500,
                  reply_json = rpc_error (- 32603) ''Internal error''
                                 [(''data'', JStr (message error))] (or_else rid JNull)\<rparr>, s')))"

section \<open>Reading the catalog\<close>

text \<open>The names a listing advertises, and whether a descriptor's input schema declares
  required arguments.\<close>

definition tool_names :: "json list \<Rightarrow> json list" where
  "tool_names tools = map (\<lambda>d. lookup d ''name'') tools"

definition declares_required :: "json \<Rightarrow> bool" where
  "declares_required d = (lookup (lookup d ''inputSchema'') ''required'' \<noteq> JUndefined)"

text \<open>A settled call either rejected or returned one text block.\<close>

definition returns_text :: "json effect \<Rightarrow> bool" where
  "returns_text e = (case fst e of Inl error \<Rightarrow> True | Inr r \<Rightarrow> (\<exists>t. r = text_content t))"

text \<open>A settled call sent exactly one request to the collaborator, after those of \<open>s\<close>,
  and it went to the path \<open>p\<close> under the base URL.\<close>

definition sends_to :: "server \<Rightarrow> string \<Rightarrow> json effect \<Rightarrow> bool" where
  "sends_to s p e = (\<exists>options. snd e = s\<lparr>outbound := outbound s @ [(baseUrl s @ p, options)]\<rparr>)"

text \<open>A settled call went the way its path did: where building the path threw, the call
  threw that error with the server untouched; where it gave \<open>p\<close>, the call sent exactly
  one request, to \<open>p\<close>.\<close>

definition follows :: "server \<Rightarrow> js_error + string \<Rightarrow> json effect \<Rightarrow> bool" where
  "follows s r e = (case r of Inl error \<Rightarrow> e = (Inl error, s) | Inr p \<Rightarrow> sends_to s p e)"

text \<open>
  The path that the handler of a tool with required arguments asks the collaborator
  for, read off the handlers tool by tool: the template literal of the handler, with
  each identifier as the \<open>switch\<close> reads it from the arguments. An identifier that is
  absent from the arguments is \<open>undefined\<close> there.
\<close>

definition requested_path :: "runtime \<Rightarrow> string \<Rightarrow> json \<Rightarrow> js_error + string" where
  "requested_path rt n args =
     template rt
      (if n = ''get_vps'' then
          [Lit ''/v1/vps/'', Sub (lookup args ''vps_id'')]
        else if n = ''start_vps'' then
          [Lit ''/v1/vps/'', Sub (lookup args ''vps_id''), Lit ''/start'']
        else if n = ''stop_vps'' then
          [Lit ''/v1/vps/'', Sub (lookup args ''vps_id''), Lit ''/stop'']
        else if n = ''restart_vps'' then
          [Lit ''/v1/vps/'', Sub (lookup args ''vps_id''), Lit ''/restart'']
        else if n = ''get_vps_usage'' then
          [Lit ''/v1/vps/'', Sub (lookup args ''vps_id''), Lit ''/usage?period='',
                    Sub (if lookup args ''period'' = JUndefined then JStr ''24h''
                         else lookup args ''period'')]
        else if n = ''get_domain'' then
          [Lit ''/v1/domains/'', Sub (lookup args ''domain_id'')]
        else if n = ''get_domain_dns'' then
          [Lit ''/v1/domains/'', Sub (lookup args ''domain_id''), Lit ''/dns'']
        else if n = ''create_dns_record'' then
          [Lit ''/v1/domains/'', Sub (lookup args ''domain_id''), Lit ''/dns'']
        else if n = ''update_dns_record'' then
          [Lit ''/v1/domains/'', Sub (lookup args ''domain_id''), Lit ''/dns/'',
                    Sub (lookup args ''record_id'')]
        else if n = ''delete_dns_record'' then
          [Lit ''/v1/domains/'', Sub (lookup args ''domain_id''), Lit ''/dns/'',
                    Sub (lookup args ''record_id'')]
        else if n = ''get_hosting_account'' then
          [Lit ''/v1/hosting/'', Sub (lookup args ''account_id'')]
        else if n = ''get_hosting_usage'' then
          [Lit ''/v1/hosting/'', Sub (lookup args ''account_id''), Lit ''/usage'']
        else if n = ''list_email_accounts'' then
          [Lit ''/v1/domains/'', Sub (lookup args ''domain_id''), Lit ''/email'']
        else if n = ''create_email_account'' then
          [Lit ''/v1/domains/'', Sub (lookup args ''domain_id''), Lit ''/email'']
        else if n = ''delete_email_account'' then
          [Lit ''/v1/domains/'', Sub (lookup args ''domain_id''), Lit ''/email/'',
                    Sub (lookup args ''email'')]
        else if n = ''get_ssl_certificate'' then
          [Lit ''/v1/ssl/'', Sub (lookup args ''certificate_id'')]
        else if n = ''create_ssl_certificate'' then
          [Lit ''/v1/ssl'']
        else if n = ''list_backups'' then
          [Lit ''/v1/'', Sub (lookup args ''resource_type''), Lit ''/'',
                    Sub (lookup args ''resource_id''), Lit ''/backups'']
        else if n = ''create_backup'' then
          [Lit ''/v1/'', Sub (lookup args ''resource_type''), Lit ''/'',
                    Sub (lookup args ''resource_id''), Lit ''/backups'']
        else if n = ''restore_backup'' then
          [Lit ''/v1/backups/'', Sub (lookup args ''backup_id''), Lit ''/restore'']
        else [])"

section \<open>Sample runs\<close>

text \<open>A server as the constructor leaves it, and two collaborators for the examples:
  one that is unreachable (\<open>fetch\<close> rejects, as on a network failure) and one that
  answers every request with status 200 and the body \<open>{}\<close>. The examples pass only the
  empty object to \<open>JSON.stringify\<close>, whose text is \<open>{}\<close> at any indentation.\<close>

definition show_int :: "int \<Rightarrow> string" where
  "show_int i = (if i < 0 then ''-'' @ show_nat (nat (- i)) else show_nat (nat i))"

definition fresh_server :: server where
  "fresh_server = \<lparr>apiKey = ''secret'', baseUrl = ''https://api.hostinger.com'', outbound = []\<rparr>"

definition unreachable :: runtime where
  "unreachable =
     \<lparr>fetch = (\<lambda>url options. Rejected (TypeError ''fetch failed'')),
      JSON_stringify = (\<lambda>v indent. ''{}''),
      Number_toString = (\<lambda>q. show_int \<lfloor>q\<rfloor>)\<rparr>"

definition answering :: runtime where
  "answering =
     \<lparr>fetch = (\<lambda>url options. Resolved (Response 200 (Inr ''{}'') (Inr (JObj [])))),
      JSON_stringify = (\<lambda>v indent. ''{}''),
      Number_toString = (\<lambda>q. show_int \<lfloor>q\<rfloor>)\<rparr>"

text \<open>The request \<open>{params: {name: n, arguments: a}}\<close> that the protocol layer hands to a
  \<open>tools/call\<close> handler, and the envelope \<open>{jsonrpc: v, method: m, params: p, id: i}\<close>.\<close>

definition call_params :: "string \<Rightarrow> json \<Rightarrow> json" where
  "call_params n a = JObj [(''name'', JStr n), (''arguments'', a)]"

definition call_request :: "string \<Rightarrow> json \<Rightarrow> json" where
  "call_request n a = JObj [(''method'', JStr ''tools/call''), (''params'', call_params n a)]"

section \<open>Facts about the catalogs\<close>

lemma index_tool_names:
  "tool_names index_tools =
     map JStr [''list_vps'', ''get_vps'', ''start_vps'', ''stop_vps'', ''restart_vps'', ''get_vps_usage'',
       ''list_domains'', ''get_domain'', ''get_domain_dns'', ''create_dns_record'', ''update_dns_record'',
       ''delete_dns_record'', ''list_hosting_accounts'', ''get_hosting_account'', ''get_hosting_usage'',
       ''list_email_accounts'', ''create_email_account'', ''delete_email_account'',
       ''list_ssl_certificates'', ''get_ssl_certificate'', ''create_ssl_certificate'',
       ''list_backups'', ''create_backup'', ''restore_backup'', ''get_account_info'', ''get_invoices'']"
  by (simp add: tool_names_def index_tools_def)

lemma http_tool_names:
  "tool_names http_tools =
     map JStr [''list_vps'', ''get_vps'', ''start_vps'', ''stop_vps'', ''restart_vps'', ''get_vps_usage'',
       ''list_domains'', ''get_domain'', ''get_domain_dns'', ''create_dns_record'', ''update_dns_record'',
       ''delete_dns_record'', ''list_hosting_accounts'', ''get_hosting_account'', ''get_hosting_usage'',
       ''list_email_accounts'', ''create_email_account'', ''delete_email_account'', ''get_account_info'']"
  by (simp add: tool_names_def http_tools_def)

lemma index_required_names:
  "tool_names (filter declares_required index_tools) =
     map JStr [''get_vps'', ''start_vps'', ''stop_vps'', ''restart_vps'', ''get_vps_usage'',
       ''get_domain'', ''get_domain_dns'', ''create_dns_record'', ''update_dns_record'',
       ''delete_dns_record'', ''get_hosting_account'', ''get_hosting_usage'',
       ''list_email_accounts'', ''create_email_account'', ''delete_email_account'',
       ''get_ssl_certificate'', ''create_ssl_certificate'',
       ''list_backups'', ''create_backup'', ''restore_backup'']"
  by (simp add: tool_names_def index_tools_def declares_required_def)

lemma http_required_names:
  "tool_names (filter declares_required http_tools) =
     map JStr [''get_vps'', ''start_vps'', ''stop_vps'', ''restart_vps'', ''get_vps_usage'',
       ''get_domain'', ''get_domain_dns'', ''create_dns_record'', ''update_dns_record'',
       ''delete_dns_record'', ''get_hosting_account'', ''get_hosting_usage'',
       ''list_email_accounts'', ''create_email_account'', ''delete_email_account'']"
  by (simp add: tool_names_def http_tools_def declares_required_def)

lemma http_tools_from_index:
  "http_tools =
     filter (\<lambda>d. lookup d ''name'' \<notin> JStr ` {''list_ssl_certificates'', ''get_ssl_certificate'',
               ''create_ssl_certificate'', ''list_backups'', ''create_backup'', ''restore_backup'',
               ''get_invoices''})
       index_tools"
  by (simp add: http_tools_def index_tools_def)

section \<open>Facts about property access\<close>

lemma nullish_name_simps [simp]:
  "nullish_name JUndefined = ''undefined''" "nullish_name JNull = ''null''"
  by (simp_all add: nullish_name_def)

lemma nullish_lookup [simp]: "nullish v \<Longrightarrow> lookup v k = JUndefined"
  by (auto simp: nullish_def)

lemma lookup_defined_not_nullish: "lookup v k \<noteq> JUndefined \<Longrightarrow> \<not> nullish v"
  by auto

lemma get_prop_present: "\<not> nullish v \<Longrightarrow> get_prop v k = Inr (lookup v k)"
  by (simp add: get_prop_def)

lemma destructure_present: "\<not> nullish v \<Longrightarrow> destructure v k src = Inr ()"
  by (simp add: destructure_def)

lemma try_step_Inr: "r = Inr v \<Longrightarrow> try_step s r f = f v"
  by (simp add: try_step_def)

lemma try_step_Inl: "r = Inl error \<Longrightarrow> try_step s r f = (Inl error, s)"
  by (simp add: try_step_def)

section \<open>What a handler returns\<close>

lemma returns_text_then_return: "returns_text (then_return e f)"
  by (auto simp: returns_text_def then_return_def split: prod.splits sum.splits)

lemma returns_text_try_step: "(\<And>v. returns_text (f v)) \<Longrightarrow> returns_text (try_step s r f)"
  by (cases r) (simp_all add: try_step_def returns_text_def)

lemma returns_text_throw: "returns_text (Inl error, s)"
  by (simp add: returns_text_def)

lemma returns_text_after_request:
  "returns_text (case e of
                   (Inl error, s') \<Rightarrow> (Inl error, s')
                 | (Inr result, s') \<Rightarrow> try_step s' (r s') (\<lambda>t. (Inr (text_content t), s')))"
  by (cases e; cases "fst e"; cases "r (snd e)") (auto simp: returns_text_def try_step_def)

lemma returns_text_if: "returns_text a \<Longrightarrow> returns_text b \<Longrightarrow> returns_text (if c then a else b)"
  by simp

lemmas handler_defs =
  listVPS_def getVPS_def startVPS_def stopVPS_def restartVPS_def getVPSUsage_def
  listDomains_def getDomain_def getDomainDNS_def createDNSRecord_def updateDNSRecord_def
  deleteDNSRecord_def listHostingAccounts_def getHostingAccount_def getHostingUsage_def
  listEmailAccounts_def createEmailAccount_def deleteEmailAccount_def
  listSSLCertificates_def getSSLCertificate_def createSSLCertificate_def
  listBackups_def createBackup_def restoreBackup_def getAccountInfo_def getInvoices_def

lemma returns_text_handlers:
  "returns_text (listVPS rt s)"
  "returns_text (getVPS rt s a)"
  "returns_text (startVPS rt s a)"
  "returns_text (stopVPS rt s a)"
  "returns_text (restartVPS rt s a)"
  "returns_text (getVPSUsage rt s a b)"
  "returns_text (listDomains rt s)"
  "returns_text (getDomain rt s a)"
  "returns_text (getDomainDNS rt s a)"
  "returns_text (createDNSRecord rt s a)"
  "returns_text (updateDNSRecord rt s a)"
  "returns_text (deleteDNSRecord rt s a b)"
  "returns_text (listHostingAccounts rt s)"
  "returns_text (getHostingAccount rt s a)"
  "returns_text (getHostingUsage rt s a)"
  "returns_text (listEmailAccounts rt s a)"
  "returns_text (createEmailAccount rt s a)"
  "returns_text (deleteEmailAccount rt s a b)"
  "returns_text (listSSLCertificates rt s)"
  "returns_text (getSSLCertificate rt s a)"
  "returns_text (createSSLCertificate rt s a)"
  "returns_text (listBackups rt s a b)"
  "returns_text (createBackup rt s a)"
  "returns_text (restoreBackup rt s a b)"
  "returns_text (getAccountInfo rt s)"
  "returns_text (getInvoices rt s a)"
  unfolding handler_defs Let_def
  by (intro returns_text_try_step returns_text_then_return returns_text_after_request[where r = "\<lambda>_. r" for r])+

lemma returns_text_index_switch: "returns_text (index_switch rt s name args)"
  unfolding index_switch_def
  by (intro returns_text_if returns_text_try_step returns_text_handlers returns_text_throw)

lemma returns_text_http_switch: "returns_text (http_switch rt s name args)"
  unfolding http_switch_def
  by (intro returns_text_if returns_text_try_step returns_text_handlers returns_text_throw)

lemma catch_as_text_returns:
  "returns_text e \<Longrightarrow> \<exists>t. catch_as_text e = (Inr (text_content t), snd e)"
  by (auto simp: returns_text_def catch_as_text_def split: prod.splits sum.splits)

lemma catch_as_text_failure:
  "e = (Inl failure, s') \<Longrightarrow>
   catch_as_text e = (Inr (text_content (''Error: '' @ message failure)), s')"
  by (simp add: catch_as_text_def)

lemma catch_as_text_Inr: "catch_as_text e = (Inr r, s') \<Longrightarrow> returns_text e \<Longrightarrow> \<exists>t. r = text_content t"
  by (auto simp: returns_text_def catch_as_text_def split: prod.splits sum.splits)

section \<open>What a handler sends\<close>

lemma snd_makeRequest:
  "\<exists>options. snd (makeRequest rt s endpoint method_arg data_arg)
       = s\<lparr>outbound := outbound s @ [(baseUrl s @ endpoint, options)]\<rparr>"
proof -
  have pick: "snd (case c of Rejected error \<Rightarrow> (f error, s')
                    | Resolved response \<Rightarrow>
                        if b response
                        then (case t response of Inl error \<Rightarrow> (g error, s') | Inr x \<Rightarrow> (h response x, s'))
                        else (case j response of Inl error \<Rightarrow> (g error, s') | Inr x \<Rightarrow> (k x, s'))) = s'"
    for c :: fetch_outcome and f g :: "js_error \<Rightarrow> js_error + json" and s' :: server
      and b :: "response \<Rightarrow> bool" and t :: "response \<Rightarrow> js_error + string"
      and h :: "response \<Rightarrow> string \<Rightarrow> js_error + json" and j :: "response \<Rightarrow> js_error + json"
      and k :: "json \<Rightarrow> js_error + json"
    by (simp split: fetch_outcome.splits sum.splits)
  show ?thesis
    unfolding makeRequest_def Let_def pick by (rule exI) (rule refl)
qed

lemma sends_to_makeRequest: "sends_to s p (makeRequest rt s p method_arg data_arg)"
  using snd_makeRequest[of rt s p method_arg data_arg] unfolding sends_to_def by blast

lemma snd_then_return: "snd (then_return e f) = snd e"
  by (simp add: then_return_def split: prod.splits sum.splits)

lemma sends_to_then_return: "sends_to s p e \<Longrightarrow> sends_to s p (then_return e f)"
  by (simp add: sends_to_def snd_then_return)

lemma sends_to_request: "sends_to s p (then_return (makeRequest rt s p method_arg data_arg) f)"
  by (intro sends_to_then_return sends_to_makeRequest)

lemma sends_to_after_request:
  "sends_to s p e \<Longrightarrow>
   sends_to s p (case e of
                   (Inl error, s') \<Rightarrow> (Inl error, s')
                 | (Inr result, s') \<Rightarrow> try_step s' r (\<lambda>t. (Inr (text_content t), s')))"
  by (cases e; cases "fst e"; cases r) (auto simp: sends_to_def try_step_def)

lemma sends_to_delete:
  "sends_to s p (case makeRequest rt s p method_arg data_arg of
                   (Inl error, s') \<Rightarrow> (Inl error, s')
                 | (Inr result, s') \<Rightarrow> try_step s' r (\<lambda>t. (Inr (text_content t), s')))"
  by (intro sends_to_after_request sends_to_makeRequest)

lemma sends_toD:
  "sends_to s p e \<Longrightarrow> \<exists>options. snd e = s\<lparr>outbound := outbound s @ [(baseUrl s @ p, options)]\<rparr>"
  unfolding sends_to_def .

lemma throws_destructuring:
  assumes "nullish a"
  shows "\<exists>m. createDNSRecord rt s a = (Inl (TypeError m), s)"
    and "\<exists>m. updateDNSRecord rt s a = (Inl (TypeError m), s)"
    and "\<exists>m. createEmailAccount rt s a = (Inl (TypeError m), s)"
    and "\<exists>m. createBackup rt s a = (Inl (TypeError m), s)"
  using assms unfolding handler_defs
  by (simp_all add: destructure_def try_step_def)

section \<open>The two switches\<close>

lemma follows_request:
  "follows s (template rt ps)
     (try_step s (template rt ps)
        (\<lambda>endpoint. then_return (makeRequest rt s endpoint method_arg data_arg) f))"
  by (cases "template rt ps") (simp_all add: follows_def try_step_def sends_to_request)

lemma follows_delete:
  "follows s (template rt ps)
     (try_step s (template rt ps)
        (\<lambda>endpoint.
           case makeRequest rt s endpoint method_arg data_arg of
             (Inl error, s') \<Rightarrow> (Inl error, s')
           | (Inr result, s') \<Rightarrow> try_step s' r (\<lambda>t. (Inr (text_content t), s'))))"
  by (cases "template rt ps") (simp_all add: follows_def try_step_def sends_to_delete)

lemma follows_fixed_path:
  "follows s (template rt [Lit p]) (then_return (makeRequest rt s p method_arg data_arg) f)"
  by (simp add: follows_def sends_to_request)

lemma index_switch_follows:
  assumes "JStr n \<in> set (tool_names (filter declares_required index_tools))" and "\<not> nullish args"
  shows "follows s (requested_path rt n args) (index_switch rt s (JStr n) args)"
proof -
  have p: "get_prop args k = Inr (lookup args k)" for k
    using assms(2) by (rule get_prop_present)
  have d: "destructure args k src = Inr ()" for k src
    using assms(2) by (rule destructure_present)
  from assms(1) show ?thesis
    unfolding index_required_names
    apply (simp only: list.set list.map insert_iff empty_iff json.inject)
    apply (elim disjE)
    apply (simp_all add: index_switch_def requested_path_def p d try_step_Inr handler_defs Let_def
             follows_request follows_delete follows_fixed_path del: template.simps)
    done
qed

lemma http_switch_follows:
  assumes "JStr n \<in> set (tool_names (filter declares_required http_tools))" and "\<not> nullish args"
  shows "follows s (requested_path rt n args) (http_switch rt s (JStr n) args)"
proof -
  have p: "get_prop args k = Inr (lookup args k)" for k
    using assms(2) by (rule get_prop_present)
  have d: "destructure args k src = Inr ()" for k src
    using assms(2) by (rule destructure_present)
  from assms(1) show ?thesis
    unfolding http_required_names
    apply (simp only: list.set list.map insert_iff empty_iff json.inject)
    apply (elim disjE)
    apply (simp_all add: http_switch_def requested_path_def p d try_step_Inr handler_defs Let_def
             follows_request follows_delete follows_fixed_path del: template.simps)
    done
qed

lemma index_switch_throws:
  assumes "name \<in> set (tool_names (filter declares_required index_tools))"
    and "name \<noteq> JStr ''create_ssl_certificate''" and "nullish args"
  shows "\<exists>m. index_switch rt s name args = (Inl (TypeError m), s)"
proof -
  obtain msg where p: "get_prop args k = Inl (TypeError (msg k))" for k
    using assms(3) by (simp add: get_prop_def)
  from assms(1,2) show ?thesis
    unfolding index_required_names
    apply (simp only: list.set list.map insert_iff empty_iff)
    apply (elim disjE)
    apply (simp_all add: index_switch_def p try_step_Inl throws_destructuring[OF assms(3)])
    done
qed

lemma http_switch_throws:
  assumes "name \<in> set (tool_names (filter declares_required http_tools))" and "nullish args"
  shows "\<exists>m. http_switch rt s name args = (Inl (TypeError m), s)"
proof -
  obtain msg where p: "get_prop args k = Inl (TypeError (msg k))" for k
    using assms(2) by (simp add: get_prop_def)
  from assms(1) show ?thesis
    unfolding http_required_names
    apply (simp only: list.set list.map insert_iff empty_iff)
    apply (elim disjE)
    apply (simp_all add: http_switch_def p try_step_Inl throws_destructuring[OF assms(2)])
    done
qed

lemma index_switch_ssl:
  "sends_to s ''/v1/ssl'' (index_switch rt s (JStr ''create_ssl_certificate'') args)"
proof -
  have "index_switch rt s (JStr ''create_ssl_certificate'') args = createSSLCertificate rt s args"
    by (simp add: index_switch_def)
  then show ?thesis
    by (simp only: createSSLCertificate_def sends_to_request)
qed

lemma index_switch_unknown:
  "JStr n \<notin> set (tool_names index_tools) \<Longrightarrow>
   index_switch rt s (JStr n) args = (Inl (Error (''Unknown tool: '' @ n)), s)"
  by (simp add: index_tool_names index_switch_def try_step_def)

lemma http_switch_unknown:
  "JStr n \<notin> set (tool_names http_tools) \<Longrightarrow>
   http_switch rt s (JStr n) args = (Inl (Error (''Unknown tool: '' @ n)), s)"
  by (simp add: http_tool_names http_switch_def try_step_def)

lemma catalog_name_is_text: "name \<in> set (tool_names index_tools) \<or> name \<in> set (tool_names http_tools) \<Longrightarrow> \<exists>n. name = JStr n"
  unfolding index_tool_names http_tool_names by auto

section \<open>The dispatcher's error channel\<close>

lemma index_callTool_unfold:
  "get_prop request ''params'' = Inr params \<Longrightarrow> \<not> nullish params \<Longrightarrow>
   index_callTool rt s request
     = catch_as_text (index_switch rt s (lookup params ''name'') (lookup params ''arguments''))"
  by (simp add: index_callTool_def try_step_def destructure_present)

lemma handleCallTool_unfold:
  "\<not> nullish params \<Longrightarrow>
   handleCallTool rt s params
     = catch_as_text (http_switch rt s (lookup params ''name'') (lookup params ''arguments''))"
  by (simp add: handleCallTool_def try_step_def destructure_present)

lemma post_mcp_call:
  "handleCallTool rt s params = (Inr r, s') \<Longrightarrow>
   post_mcp rt s (JObj [(''jsonrpc'', JStr ''2.0''), (''method'', JStr ''tools/call''),
                        (''params'', params), (''id'', i)])
     = (Inr \<lparr>reply_status = 200, reply_json = rpc_result r i\<rparr>, s')"
  by (simp add: post_mcp_def mcp_try_def try_step_def get_prop_def nullish_def)

lemma catalog_name_present:
  assumes "lookup params ''name'' \<in> set (tool_names index_tools)
           \<or> lookup params ''name'' \<in> set (tool_names http_tools)"
  shows "\<not> nullish params"
proof -
  from assms obtain n where "lookup params ''name'' = JStr n"
    using catalog_name_is_text by blast
  then have "lookup params ''name'' \<noteq> JUndefined" by simp
  then show ?thesis by (rule lookup_defined_not_nullish)
qed

text \<open>
  Claim C1. For every tool name present in the catalog and every handler failure of any
  kind (a missing argument, a downstream HTTP error, a network failure), \<open>callTool\<close> does
  not propagate the error: it returns a \<open>ToolResult\<close> whose single content block is
  \<open>{type: "text", text: "Error: " + failure.message}\<close>, and the response is
  result-shaped, never error-shaped. Stated for the handler of the stdio entry point,
  for \<open>handleCallTool\<close> of the HTTP/SSE entry point and for the envelope that
  \<open>POST /mcp\<close> sends: the call always returns (\<open>Inr\<close>), and whenever the \<open>switch\<close> that
  invokes the handler fails with \<open>failure\<close>, the returned value is that text block.
\<close>

theorem catalog_tool_failure_is_text_result:
  "(lookup params ''name'' \<in> set (tool_names index_tools)
      \<and> get_prop request ''params'' = Inr params \<longrightarrow>
      (\<exists>r s1. index_callTool rt s request = (Inr r, s1))
      \<and> (index_switch rt s (lookup params ''name'') (lookup params ''arguments'') = (Inl failure, s') \<longrightarrow>
           index_callTool rt s request
             = (Inr (text_content (''Error: '' @ message failure)), s')))
   \<and> (lookup params ''name'' \<in> set (tool_names http_tools) \<longrightarrow>
      (\<exists>r s1. handleCallTool rt s params = (Inr r, s1))
      \<and> (http_switch rt s (lookup params ''name'') (lookup params ''arguments'') = (Inl failure, s') \<longrightarrow>
           handleCallTool rt s params
             = (Inr (text_content (''Error: '' @ message failure)), s')
           \<and> post_mcp rt s (JObj [(''jsonrpc'', JStr ''2.0''), (''method'', JStr ''tools/call''),
                                  (''params'', params), (''id'', i)])
             = (Inr \<lparr>reply_status = 200,
                     reply_json = rpc_result (text_content (''Error: '' @ message failure)) i\<rparr>, s')))"
proof (intro conjI impI)
  assume a: "lookup params ''name'' \<in> set (tool_names index_tools)
             \<and> get_prop request ''params'' = Inr params"
  then have u: "index_callTool rt s request
      = catch_as_text (index_switch rt s (lookup params ''name'') (lookup params ''arguments''))"
    using catalog_name_present index_callTool_unfold by blast
  show "\<exists>r s1. index_callTool rt s request = (Inr r, s1)"
    unfolding u using catch_as_text_returns[OF returns_text_index_switch] by blast
  assume "index_switch rt s (lookup params ''name'') (lookup params ''arguments'') = (Inl failure, s')"
  then show "index_callTool rt s request = (Inr (text_content (''Error: '' @ message failure)), s')"
    unfolding u by (rule catch_as_text_failure)
next
  assume a: "lookup params ''name'' \<in> set (tool_names http_tools)"
  then have u: "handleCallTool rt s params
      = catch_as_text (http_switch rt s (lookup params ''name'') (lookup params ''arguments''))"
    using catalog_name_present handleCallTool_unfold by blast
  show "\<exists>r s1. handleCallTool rt s params = (Inr r, s1)"
    unfolding u using catch_as_text_returns[OF returns_text_http_switch] by blast
  assume "http_switch rt s (lookup params ''name'') (lookup params ''arguments'') = (Inl failure, s')"
  then show h: "handleCallTool rt s params = (Inr (text_content (''Error: '' @ message failure)), s')"
    unfolding u by (rule catch_as_text_failure)
  show "post_mcp rt s (JObj [(''jsonrpc'', JStr ''2.0''), (''method'', JStr ''tools/call''),
                                  (''params'', params), (''id'', i)])
             = (Inr \<lparr>reply_status = 200,
                     reply_json = rpc_result (text_content (''Error: '' @ message failure)) i\<rparr>, s')"
    using h by (rule post_mcp_call)
qed

theorem catalog_tool_failure_is_text_result_witness:
  "lookup (JObj [(''name'', JStr ''get_vps'')]) ''name'' \<in> set (tool_names index_tools)
   \<and> lookup (JObj [(''name'', JStr ''get_vps'')]) ''name'' \<in> set (tool_names http_tools)
   \<and> get_prop (JObj [(''method'', JStr ''tools/call''), (''params'', JObj [(''name'', JStr ''get_vps'')])])
        ''params'' = Inr (JObj [(''name'', JStr ''get_vps'')])
   \<and> index_switch answering fresh_server (JStr ''get_vps'') JUndefined
       = (Inl (TypeError ''Cannot read properties of undefined (reading 'vps_id')''), fresh_server)
   \<and> http_switch answering fresh_server (JStr ''get_vps'') JUndefined
       = (Inl (TypeError ''Cannot read properties of undefined (reading 'vps_id')''), fresh_server)
   \<and> index_callTool answering fresh_server
        (JObj [(''method'', JStr ''tools/call''), (''params'', JObj [(''name'', JStr ''get_vps'')])])
       = (Inr (text_content ''Error: Cannot read properties of undefined (reading 'vps_id')''),
          fresh_server)
   \<and> handleCallTool answering fresh_server (JObj [(''name'', JStr ''get_vps'')])
       = (Inr (text_content ''Error: Cannot read properties of undefined (reading 'vps_id')''),
          fresh_server)
   \<and> post_mcp answering fresh_server
        (JObj [(''jsonrpc'', JStr ''2.0''), (''method'', JStr ''tools/call''),
               (''params'', JObj [(''name'', JStr ''get_vps'')]), (''id'', JNum 7)])
       = (Inr \<lparr>reply_status = 200,
               reply_json = rpc_result
                 (text_content ''Error: Cannot read properties of undefined (reading 'vps_id')'')
                 (JNum 7)\<rparr>, fresh_server)"
proof -
  have n1: "lookup (JObj [(''name'', JStr ''get_vps'')]) ''name'' \<in> set (tool_names index_tools)"
    by (simp add: index_tool_names)
  have n2: "lookup (JObj [(''name'', JStr ''get_vps'')]) ''name'' \<in> set (tool_names http_tools)"
    by (simp add: http_tool_names)
  have g: "get_prop (JObj [(''method'', JStr ''tools/call''), (''params'', JObj [(''name'', JStr ''get_vps'')])])
        ''params'' = Inr (JObj [(''name'', JStr ''get_vps'')])"
    by (simp add: get_prop_def nullish_def)
  have f1: "index_switch answering fresh_server (JStr ''get_vps'') JUndefined
       = (Inl (TypeError ''Cannot read properties of undefined (reading 'vps_id')''), fresh_server)"
    by (simp add: index_switch_def get_prop_def nullish_def nullish_name_def try_step_def)
  have f2: "http_switch answering fresh_server (JStr ''get_vps'') JUndefined
       = (Inl (TypeError ''Cannot read properties of undefined (reading 'vps_id')''), fresh_server)"
    by (simp add: http_switch_def get_prop_def nullish_def nullish_name_def try_step_def)
  show ?thesis
    using n1 n2 g f1 f2
      catalog_tool_failure_is_text_result[of "JObj [(''name'', JStr ''get_vps'')]"
        "JObj [(''method'', JStr ''tools/call''), (''params'', JObj [(''name'', JStr ''get_vps'')])]"
        answering fresh_server "TypeError ''Cannot read properties of undefined (reading 'vps_id')''"
        fresh_server "JNum 7"]
    by simp
qed

text \<open>
  Claim C2. For every tool name \<open>n\<close> not present in the catalog,
  \<open>callTool({name: n, arguments: {}})\<close> returns a successful, result-shaped envelope whose
  single text block is \<open>Error: Unknown tool: \<close> followed by \<open>n\<close>; nothing is sent to the
  collaborator and the call is never a silent no-op. It holds for any \<open>arguments\<close> value
  \<open>a\<close>, which the \<open>default\<close> case never reads.
\<close>

theorem unknown_tool_is_text_result:
  "(JStr n \<notin> set (tool_names index_tools) \<longrightarrow>
      index_callTool rt s (call_request n a)
        = (Inr (text_content (''Error: Unknown tool: '' @ n)), s))
   \<and> (JStr n \<notin> set (tool_names http_tools) \<longrightarrow>
      handleCallTool rt s (call_params n a)
        = (Inr (text_content (''Error: Unknown tool: '' @ n)), s)
      \<and> http_callTool rt s (call_request n a)
        = (Inr (text_content (''Error: Unknown tool: '' @ n)), s)
      \<and> post_mcp rt s (JObj [(''jsonrpc'', JStr ''2.0''), (''method'', JStr ''tools/call''),
                             (''params'', call_params n a), (''id'', i)])
        = (Inr \<lparr>reply_status = 200,
                reply_json = rpc_result (text_content (''Error: Unknown tool: '' @ n)) i\<rparr>, s))"
proof (intro conjI impI)
  have p: "\<not> nullish (call_params n a)"
    by (simp add: call_params_def nullish_def)
  have g: "get_prop (call_request n a) ''params'' = Inr (call_params n a)"
    by (simp add: call_request_def get_prop_def nullish_def)
  have l: "lookup (call_params n a) ''name'' = JStr n"
    by (simp add: call_params_def)
  {
    assume "JStr n \<notin> set (tool_names index_tools)"
    then show "index_callTool rt s (call_request n a)
        = (Inr (text_content (''Error: Unknown tool: '' @ n)), s)"
      by (simp add: index_callTool_unfold[OF g p] l index_switch_unknown catch_as_text_def)
  }
  assume "JStr n \<notin> set (tool_names http_tools)"
  then show h: "handleCallTool rt s (call_params n a)
        = (Inr (text_content (''Error: Unknown tool: '' @ n)), s)"
    by (simp add: handleCallTool_unfold[OF p] l http_switch_unknown catch_as_text_def)
  then show "http_callTool rt s (call_request n a)
        = (Inr (text_content (''Error: Unknown tool: '' @ n)), s)"
    by (simp add: http_callTool_def g try_step_def)
  show "post_mcp rt s (JObj [(''jsonrpc'', JStr ''2.0''), (''method'', JStr ''tools/call''),
                             (''params'', call_params n a), (''id'', i)])
        = (Inr \<lparr>reply_status = 200,
                reply_json = rpc_result (text_content (''Error: Unknown tool: '' @ n)) i\<rparr>, s)"
    using h by (rule post_mcp_call)
qed

theorem unknown_tool_is_text_result_witness:
  "JStr ''reboot_vps'' \<notin> set (tool_names index_tools)
   \<and> JStr ''reboot_vps'' \<notin> set (tool_names http_tools)
   \<and> index_callTool answering fresh_server (call_request ''reboot_vps'' (JObj []))
       = (Inr (text_content ''Error: Unknown tool: reboot_vps''), fresh_server)
   \<and> handleCallTool answering fresh_server (call_params ''reboot_vps'' (JObj []))
       = (Inr (text_content ''Error: Unknown tool: reboot_vps''), fresh_server)
   \<and> http_callTool answering fresh_server (call_request ''reboot_vps'' (JObj []))
       = (Inr (text_content ''Error: Unknown tool: reboot_vps''), fresh_server)
   \<and> post_mcp answering fresh_server
        (JObj [(''jsonrpc'', JStr ''2.0''), (''method'', JStr ''tools/call''),
               (''params'', call_params ''reboot_vps'' (JObj [])), (''id'', JNum 1)])
       = (Inr \<lparr>reply_status = 200,
               reply_json = rpc_result (text_content ''Error: Unknown tool: reboot_vps'') (JNum 1)\<rparr>,
          fresh_server)"
  using unknown_tool_is_text_result[of "''reboot_vps''" answering fresh_server "JObj []" "JNum 1"]
  by (simp add: index_tool_names http_tool_names)

section \<open>The shape of a tool result\<close>

lemma index_callTool_returns:
  assumes "get_prop request ''params'' = Inr params" and "\<not> nullish params"
  shows "\<exists>t s1. index_callTool rt s request = (Inr (text_content t), s1)"
  unfolding index_callTool_unfold[OF assms]
  using catch_as_text_returns[OF returns_text_index_switch] by blast

lemma handleCallTool_returns:
  assumes "\<not> nullish params"
  shows "\<exists>t s1. handleCallTool rt s params = (Inr (text_content t), s1)"
  unfolding handleCallTool_unfold[OF assms]
  using catch_as_text_returns[OF returns_text_http_switch] by blast

lemma http_callTool_unfold:
  "get_prop request ''params'' = Inr params \<Longrightarrow>
   http_callTool rt s request = handleCallTool rt s params"
  by (simp add: http_callTool_def try_step_def)

text \<open>
  Claim C9. Every value returned by \<open>callTool\<close>, on handler success and on handler failure
  alike, is a \<open>ToolResult\<close> whose \<open>content\<close> is a sequence of exactly one block, and that
  block has type \<open>text\<close> with a string \<open>text\<close> field. Whatever any of the three
  \<open>callTool\<close> paths returns has that shape; a call whose \<open>params\<close> are present always
  returns such a value, whether the handler succeeded or failed; and where the \<open>switch\<close>
  that invokes the handler fails with \<open>failure\<close>, the value returned is the one block
  \<open>{type: "text", text: "Error: " + failure.message}\<close>.
\<close>

theorem callTool_returns_one_text_block:
  "(index_callTool rt s request = (Inr r, s') \<longrightarrow>
      (\<exists>t. r = JObj [(''content'', JArr [JObj [(''type'', JStr ''text''), (''text'', JStr t)]])]))
   \<and> (handleCallTool rt s params = (Inr r, s') \<longrightarrow>
      (\<exists>t. r = JObj [(''content'', JArr [JObj [(''type'', JStr ''text''), (''text'', JStr t)]])]))
   \<and> (http_callTool rt s request = (Inr r, s') \<longrightarrow>
      (\<exists>t. r = JObj [(''content'', JArr [JObj [(''type'', JStr ''text''), (''text'', JStr t)]])]))
   \<and> (\<not> nullish params \<longrightarrow>
      (\<exists>t s1. handleCallTool rt s params
                = (Inr (JObj [(''content'', JArr [JObj [(''type'', JStr ''text''), (''text'', JStr t)]])]), s1))
      \<and> (http_switch rt s (lookup params ''name'') (lookup params ''arguments'') = (Inl failure, s2) \<longrightarrow>
           handleCallTool rt s params
             = (Inr (JObj [(''content'', JArr [JObj [(''type'', JStr ''text''), (''text'', JStr (''Error: '' @ message failure))]])]), s2)))
   \<and> (get_prop request ''params'' = Inr params \<and> \<not> nullish params \<longrightarrow>
      (\<exists>t s1. index_callTool rt s request
                = (Inr (JObj [(''content'', JArr [JObj [(''type'', JStr ''text''), (''text'', JStr t)]])]), s1))
      \<and> (\<exists>t s1. http_callTool rt s request
                = (Inr (JObj [(''content'', JArr [JObj [(''type'', JStr ''text''), (''text'', JStr t)]])]), s1))
      \<and> (index_switch rt s (lookup params ''name'') (lookup params ''arguments'') = (Inl failure, s2) \<longrightarrow>
           index_callTool rt s request
             = (Inr (JObj [(''content'', JArr [JObj [(''type'', JStr ''text''), (''text'', JStr (''Error: '' @ message failure))]])]), s2)))"
proof -
  have handle: "\<exists>t. r = text_content t" if "handleCallTool rt s p = (Inr r, s')" for p
    using that catch_as_text_Inr[OF _ returns_text_http_switch]
    by (cases "destructure p ''name'' ''params''") (auto simp: handleCallTool_def try_step_def)
  have index: "\<exists>t. r = text_content t" if "index_callTool rt s request = (Inr r, s')"
  proof (cases "get_prop request ''params''")
    case (Inl error)
    with that show ?thesis by (simp add: index_callTool_def try_step_def)
  next
    case (Inr p)
    with that catch_as_text_Inr[OF _ returns_text_index_switch] show ?thesis
      by (cases "destructure p ''name'' ''request.params''") (auto simp: index_callTool_def try_step_def)
  qed
  have http: "\<exists>t. r = text_content t" if "http_callTool rt s request = (Inr r, s')"
    using that handle
    by (cases "get_prop request ''params''") (auto simp: http_callTool_def try_step_def)
  have shape: "(index_callTool rt s request = (Inr r, s') \<longrightarrow> (\<exists>t. r = text_content t))
      \<and> (handleCallTool rt s params = (Inr r, s') \<longrightarrow> (\<exists>t. r = text_content t))
      \<and> (http_callTool rt s request = (Inr r, s') \<longrightarrow> (\<exists>t. r = text_content t))"
    using handle[of params] index http by blast
  have handle_total: "\<exists>t s1. handleCallTool rt s params = (Inr (text_content t), s1)"
    if "\<not> nullish params"
    using that by (rule handleCallTool_returns)
  have handle_failure:
    "handleCallTool rt s params = (Inr (text_content (''Error: '' @ message failure)), s2)"
    if "\<not> nullish params"
      and "http_switch rt s (lookup params ''name'') (lookup params ''arguments'') = (Inl failure, s2)"
    unfolding handleCallTool_unfold[OF that(1)] using that(2) by (rule catch_as_text_failure)
  have index_total: "\<exists>t s1. index_callTool rt s request = (Inr (text_content t), s1)"
    if "get_prop request ''params'' = Inr params \<and> \<not> nullish params"
    using that index_callTool_returns by blast
  have http_total: "\<exists>t s1. http_callTool rt s request = (Inr (text_content t), s1)"
    if "get_prop request ''params'' = Inr params \<and> \<not> nullish params"
    using that handleCallTool_returns http_callTool_unfold by metis
  have index_failure:
    "index_callTool rt s request = (Inr (text_content (''Error: '' @ message failure)), s2)"
    if "get_prop request ''params'' = Inr params \<and> \<not> nullish params"
      and "index_switch rt s (lookup params ''name'') (lookup params ''arguments'') = (Inl failure, s2)"
  proof -
    from that(1) have u: "index_callTool rt s request
      = catch_as_text (index_switch rt s (lookup params ''name'') (lookup params ''arguments''))"
      using index_callTool_unfold by blast
    show ?thesis unfolding u using that(2) by (rule catch_as_text_failure)
  qed
  from shape handle_total handle_failure index_total http_total index_failure
  show ?thesis
    unfolding text_content_def by blast
qed

theorem callTool_returns_one_text_block_witness:
  "index_callTool answering fresh_server (call_request ''list_domains'' (JObj []))
     = (Inr (text_content ''Domains: {}''),
        fresh_server\<lparr>outbound := [(''https://api.hostinger.com/v1/domains'',
           JObj [(''method'', JStr ''GET''),
                 (''headers'', JObj [(''Authorization'', JStr ''Bearer secret''),
                                     (''Content-Type'', JStr ''application/json'')])])]\<rparr>)
   \<and> handleCallTool answering fresh_server (call_params ''list_domains'' (JObj []))
     = index_callTool answering fresh_server (call_request ''list_domains'' (JObj []))
   \<and> http_callTool answering fresh_server (call_request ''list_domains'' (JObj []))
     = index_callTool answering fresh_server (call_request ''list_domains'' (JObj []))
   \<and> text_content ''Domains: {}''
     = JObj [(''content'', JArr [JObj [(''type'', JStr ''text''), (''text'', JStr ''Domains: {}'')]])]
   \<and> \<not> nullish (call_params ''get_vps'' (JObj [(''vps_id'', JStr ''42'')]))
   \<and> get_prop (call_request ''get_vps'' (JObj [(''vps_id'', JStr ''42'')])) ''params''
     = Inr (call_params ''get_vps'' (JObj [(''vps_id'', JStr ''42'')]))
   \<and> index_switch unreachable fresh_server (JStr ''get_vps'') (JObj [(''vps_id'', JStr ''42'')])
     = (Inl (Error ''API request failed: fetch failed''),
        fresh_server\<lparr>outbound := [(''https://api.hostinger.com/v1/vps/42'',
           JObj [(''method'', JStr ''GET''),
                 (''headers'', JObj [(''Authorization'', JStr ''Bearer secret''),
                                     (''Content-Type'', JStr ''application/json'')])])]\<rparr>)
   \<and> http_switch unreachable fresh_server (JStr ''get_vps'') (JObj [(''vps_id'', JStr ''42'')])
     = (Inl (Error ''API request failed: fetch failed''),
        fresh_server\<lparr>outbound := [(''https://api.hostinger.com/v1/vps/42'',
           JObj [(''method'', JStr ''GET''),
                 (''headers'', JObj [(''Authorization'', JStr ''Bearer secret''),
                                     (''Content-Type'', JStr ''application/json'')])])]\<rparr>)
   \<and> index_callTool unreachable fresh_server (call_request ''get_vps'' (JObj [(''vps_id'', JStr ''42'')]))
     = (Inr (JObj [(''content'', JArr [JObj [(''type'', JStr ''text''), (''text'', JStr ''Error: API request failed: fetch failed'')]])]),
        fresh_server\<lparr>outbound := [(''https://api.hostinger.com/v1/vps/42'',
           JObj [(''method'', JStr ''GET''),
                 (''headers'', JObj [(''Authorization'', JStr ''Bearer secret''),
                                     (''Content-Type'', JStr ''application/json'')])])]\<rparr>)
   \<and> handleCallTool unreachable fresh_server (call_params ''get_vps'' (JObj [(''vps_id'', JStr ''42'')]))
     = (Inr (JObj [(''content'', JArr [JObj [(''type'', JStr ''text''), (''text'', JStr ''Error: API request failed: fetch failed'')]])]),
        fresh_server\<lparr>outbound := [(''https://api.hostinger.com/v1/vps/42'',
           JObj [(''method'', JStr ''GET''),
                 (''headers'', JObj [(''Authorization'', JStr ''Bearer secret''),
                                     (''Content-Type'', JStr ''application/json'')])])]\<rparr>)"
proof -
  have run: "index_callTool answering fresh_server (call_request ''list_domains'' (JObj []))
     = (Inr (text_content ''Domains: {}''),
        fresh_server\<lparr>outbound := [(''https://api.hostinger.com/v1/domains'',
           JObj [(''method'', JStr ''GET''),
                 (''headers'', JObj [(''Authorization'', JStr ''Bearer secret''),
                                     (''Content-Type'', JStr ''application/json'')])])]\<rparr>)"
    by (simp add: index_callTool_def call_request_def call_params_def get_prop_def nullish_def
          destructure_def try_step_def index_switch_def listDomains_def makeRequest_def
          then_return_def catch_as_text_def answering_def fresh_server_def ok_def)
  have handle: "handleCallTool answering fresh_server (call_params ''list_domains'' (JObj []))
     = (Inr (text_content ''Domains: {}''),
        fresh_server\<lparr>outbound := [(''https://api.hostinger.com/v1/domains'',
           JObj [(''method'', JStr ''GET''),
                 (''headers'', JObj [(''Authorization'', JStr ''Bearer secret''),
                                     (''Content-Type'', JStr ''application/json'')])])]\<rparr>)"
    by (simp add: handleCallTool_def call_params_def nullish_def
          destructure_def try_step_def http_switch_def listDomains_def makeRequest_def
          then_return_def catch_as_text_def answering_def fresh_server_def ok_def)
  have http: "http_callTool answering fresh_server (call_request ''list_domains'' (JObj []))
     = handleCallTool answering fresh_server (call_params ''list_domains'' (JObj []))"
    by (simp add: http_callTool_def call_request_def get_prop_def nullish_def try_step_def)
  have lit: "text_content ''Domains: {}''
     = JObj [(''content'', JArr [JObj [(''type'', JStr ''text''), (''text'', JStr ''Domains: {}'')]])]"
    by (simp add: text_content_def)
  have present: "\<not> nullish (call_params ''get_vps'' (JObj [(''vps_id'', JStr ''42'')]))"
    by (simp add: call_params_def nullish_def)
  have params: "get_prop (call_request ''get_vps'' (JObj [(''vps_id'', JStr ''42'')])) ''params''
     = Inr (call_params ''get_vps'' (JObj [(''vps_id'', JStr ''42'')]))"
    by (simp add: call_request_def get_prop_def nullish_def)
  have names: "lookup (call_params ''get_vps'' (JObj [(''vps_id'', JStr ''42'')])) ''name'' = JStr ''get_vps''"
      "lookup (call_params ''get_vps'' (JObj [(''vps_id'', JStr ''42'')])) ''arguments'' = JObj [(''vps_id'', JStr ''42'')]"
    by (simp_all add: call_params_def)
  have fail1: "index_switch unreachable fresh_server (JStr ''get_vps'') (JObj [(''vps_id'', JStr ''42'')])
     = (Inl (Error ''API request failed: fetch failed''),
        fresh_server\<lparr>outbound := [(''https://api.hostinger.com/v1/vps/42'',
           JObj [(''method'', JStr ''GET''),
                 (''headers'', JObj [(''Authorization'', JStr ''Bearer secret''),
                                     (''Content-Type'', JStr ''application/json'')])])]\<rparr>)"
    by (simp add: index_switch_def get_prop_def nullish_def try_step_def getVPS_def
          makeRequest_def then_return_def unreachable_def fresh_server_def)
  have fail2: "http_switch unreachable fresh_server (JStr ''get_vps'') (JObj [(''vps_id'', JStr ''42'')])
     = (Inl (Error ''API request failed: fetch failed''),
        fresh_server\<lparr>outbound := [(''https://api.hostinger.com/v1/vps/42'',
           JObj [(''method'', JStr ''GET''),
                 (''headers'', JObj [(''Authorization'', JStr ''Bearer secret''),
                                     (''Content-Type'', JStr ''application/json'')])])]\<rparr>)"
    by (simp add: http_switch_def get_prop_def nullish_def try_step_def getVPS_def
          makeRequest_def then_return_def unreachable_def fresh_server_def)
  note failure = callTool_returns_one_text_block[of unreachable fresh_server
      "call_request ''get_vps'' (JObj [(''vps_id'', JStr ''42'')])" _ _
      "call_params ''get_vps'' (JObj [(''vps_id'', JStr ''42'')])"
      "Error ''API request failed: fetch failed''"
      "fresh_server\<lparr>outbound := [(''https://api.hostinger.com/v1/vps/42'',
           JObj [(''method'', JStr ''GET''),
                 (''headers'', JObj [(''Authorization'', JStr ''Bearer secret''),
                                     (''Content-Type'', JStr ''application/json'')])])]\<rparr>"]
  note success = callTool_returns_one_text_block[of answering fresh_server
      "call_request ''list_domains'' (JObj [])" "text_content ''Domains: {}''"
      "fresh_server\<lparr>outbound := [(''https://api.hostinger.com/v1/domains'',
           JObj [(''method'', JStr ''GET''),
                 (''headers'', JObj [(''Authorization'', JStr ''Bearer secret''),
                                     (''Content-Type'', JStr ''application/json'')])])]\<rparr>"
      "call_params ''list_domains'' (JObj [])"]
  from failure present params fail1 fail2
  have f1: "index_callTool unreachable fresh_server (call_request ''get_vps'' (JObj [(''vps_id'', JStr ''42'')]))
     = (Inr (JObj [(''content'', JArr [JObj [(''type'', JStr ''text''), (''text'', JStr ''Error: API request failed: fetch failed'')]])]),
        fresh_server\<lparr>outbound := [(''https://api.hostinger.com/v1/vps/42'',
           JObj [(''method'', JStr ''GET''),
                 (''headers'', JObj [(''Authorization'', JStr ''Bearer secret''),
                                     (''Content-Type'', JStr ''application/json'')])])]\<rparr>)"
    and f2: "handleCallTool unreachable fresh_server (call_params ''get_vps'' (JObj [(''vps_id'', JStr ''42'')]))
     = (Inr (JObj [(''content'', JArr [JObj [(''type'', JStr ''text''), (''text'', JStr ''Error: API request failed: fetch failed'')]])]),
        fresh_server\<lparr>outbound := [(''https://api.hostinger.com/v1/vps/42'',
           JObj [(''method'', JStr ''GET''),
                 (''headers'', JObj [(''Authorization'', JStr ''Bearer secret''),
                                     (''Content-Type'', JStr ''application/json'')])])]\<rparr>)"
    by (simp_all only: names js_error.sel append.simps simp_thms)
  from success run handle http lit present params fail1 fail2 f1 f2
  show ?thesis by (simp only: simp_thms)
qed

text \<open>A network failure is one more handler failure: the rejection of \<open>fetch\<close> is rethrown
  by \<open>makeRequest\<close> and narrated by the \<open>catch\<close> of the dispatcher.\<close>

lemma network_failure_is_narrated:
  "index_callTool unreachable fresh_server (call_request ''list_domains'' (JObj []))
     = (Inr (text_content ''Error: API request failed: fetch failed''),
        fresh_server\<lparr>outbound := [(''https://api.hostinger.com/v1/domains'',
           JObj [(''method'', JStr ''GET''),
                 (''headers'', JObj [(''Authorization'', JStr ''Bearer secret''),
                                     (''Content-Type'', JStr ''application/json'')])])]\<rparr>)"
  by (simp add: index_callTool_def call_request_def call_params_def get_prop_def nullish_def
        destructure_def try_step_def index_switch_def listDomains_def makeRequest_def
        then_return_def catch_as_text_def unreachable_def fresh_server_def)

section \<open>Listing the catalog\<close>

text \<open>
  Claim C8. \<open>listTools\<close> is idempotent, side-effect-free and order-stable: any two
  invocations, successive or not, return the same sequence of descriptors (same names,
  descriptions and input schemas in the same order), and no state changes: the server is
  returned as it was, with nothing sent to the collaborator.
\<close>

theorem listTools_is_pure:
  "index_listTools s = (JObj [(''tools'', JArr index_tools)], s)
   \<and> fst (index_listTools (snd (index_listTools s))) = fst (index_listTools s)
   \<and> fst (index_listTools s) = fst (index_listTools t)
   \<and> http_listTools s = (JObj [(''tools'', JArr http_tools)], s)
   \<and> fst (http_listTools (snd (http_listTools s))) = fst (http_listTools s)
   \<and> fst (http_listTools s) = fst (http_listTools t)"
  by (simp add: index_listTools_def http_listTools_def handleListTools_def)

theorem listTools_is_pure_witness:
  "index_listTools fresh_server = (JObj [(''tools'', JArr index_tools)], fresh_server)
   \<and> fst (index_listTools (snd (index_listTools fresh_server))) = fst (index_listTools fresh_server)
   \<and> http_listTools fresh_server = (JObj [(''tools'', JArr http_tools)], fresh_server)
   \<and> fst (http_listTools (snd (http_listTools fresh_server))) = fst (http_listTools fresh_server)"
  using listTools_is_pure[of fresh_server fresh_server] by simp

text \<open>
  Claim C5, as the specification states it: the stdio-bound entry point and the
  HTTP/SSE-bound entry point enumerate the same ordered sequence of tool descriptors.
  They do not: the first lists 26 tools, the second 19.
\<close>

theorem listing_differs_across_entry_points:
  "fst (index_listTools fresh_server) \<noteq> fst (http_listTools fresh_server)
   \<and> length index_tools = 26 \<and> length http_tools = 19
   \<and> JStr ''get_invoices'' \<in> set (tool_names index_tools)
   \<and> JStr ''get_invoices'' \<notin> set (tool_names http_tools)"
proof -
  have n: "length index_tools = 26" "length http_tools = 19"
    by (simp_all add: index_tools_def http_tools_def)
  then have "index_tools \<noteq> http_tools" by auto
  with n show ?thesis
    by (simp add: index_listTools_def http_listTools_def handleListTools_def
          index_tool_names http_tool_names)
qed

text \<open>
  Claim C5, amended. Within the HTTP/SSE entry point the listing is the same on every
  transport: the protocol server's \<open>tools/list\<close> handler and \<open>POST /mcp\<close> both return the
  descriptors of \<open>handleListTools\<close>. Across the two entry points the catalogs differ by
  design of the HTTP/SSE one, which has neither descriptors nor cases nor handlers for
  the SSL, backup and invoice tools: its listing is the stdio listing with those seven
  descriptors removed, the other nineteen identical and in the same order.
\<close>

theorem http_listing_is_stdio_listing_without_seven:
  "http_listTools s = handleListTools s
   \<and> post_mcp rt s (JObj [(''jsonrpc'', JStr ''2.0''), (''method'', JStr ''tools/list''), (''id'', i)])
       = (Inr \<lparr>reply_status = 200, reply_json = rpc_result (fst (http_listTools s)) i\<rparr>, s)
   \<and> fst (http_listTools s) = JObj [(''tools'', JArr http_tools)]
   \<and> fst (index_listTools s) = JObj [(''tools'', JArr index_tools)]
   \<and> http_tools =
       filter (\<lambda>d. lookup d ''name'' \<notin> JStr ` {''list_ssl_certificates'', ''get_ssl_certificate'',
                 ''create_ssl_certificate'', ''list_backups'', ''create_backup'', ''restore_backup'',
                 ''get_invoices''})
         index_tools"
proof -
  have "post_mcp rt s (JObj [(''jsonrpc'', JStr ''2.0''), (''method'', JStr ''tools/list''), (''id'', i)])
       = (Inr \<lparr>reply_status = 200, reply_json = rpc_result (fst (http_listTools s)) i\<rparr>, s)"
    by (simp add: post_mcp_def mcp_try_def try_step_def get_prop_def nullish_def
          http_listTools_def handleListTools_def)
  with http_tools_from_index show ?thesis
    by (simp add: http_listTools_def handleListTools_def index_listTools_def)
qed

theorem http_listing_is_stdio_listing_without_seven_witness:
  "http_listTools fresh_server = handleListTools fresh_server
   \<and> post_mcp answering fresh_server
        (JObj [(''jsonrpc'', JStr ''2.0''), (''method'', JStr ''tools/list''), (''id'', JNum 1)])
       = (Inr \<lparr>reply_status = 200,
               reply_json = rpc_result (fst (http_listTools fresh_server)) (JNum 1)\<rparr>, fresh_server)
   \<and> fst (http_listTools fresh_server) = JObj [(''tools'', JArr http_tools)]
   \<and> fst (index_listTools fresh_server) = JObj [(''tools'', JArr index_tools)]
   \<and> http_tools =
       filter (\<lambda>d. lookup d ''name'' \<notin> JStr ` {''list_ssl_certificates'', ''get_ssl_certificate'',
                 ''create_ssl_certificate'', ''list_backups'', ''create_backup'', ''restore_backup'',
                 ''get_invoices''})
         index_tools"
  by (rule http_listing_is_stdio_listing_without_seven[of fresh_server answering "JNum 1"])

section \<open>The POST /mcp endpoint\<close>

lemma jsonrpc_text_not_nullish: "lookup body k = JStr x \<Longrightarrow> \<not> nullish body"
  by (rule lookup_defined_not_nullish[of body k]) simp

text \<open>
  Claim C6. For every \<open>POST /mcp\<close> request whose body lacks the \<open>jsonrpc\<close> field or whose
  \<open>jsonrpc\<close> field is not the literal \<open>"2.0"\<close>, the endpoint responds with HTTP status 400
  and a JSON-RPC error object with code -32600, without dispatching to any handler: the
  server is left as it was. The body is any parsed value other than \<open>undefined\<close> and
  \<open>null\<close>, which are not request bodies.
\<close>

theorem wrong_jsonrpc_is_invalid_request:
  "\<not> nullish body \<and> lookup body ''jsonrpc'' \<noteq> JStr ''2.0'' \<longrightarrow>
   post_mcp rt s body
     = (Inr \<lparr>reply_status = 400,
             reply_json = JObj [(''jsonrpc'', JStr ''2.0''),
                                (''error'', JObj [(''code'', JNum (- 32600)),
                                                  (''message'', JStr ''Invalid Request'')]),
                                (''id'', or_else (lookup body ''id'') JNull)]\<rparr>, s)"
  by (simp add: post_mcp_def mcp_try_def get_prop_present try_step_def rpc_error_def)

theorem wrong_jsonrpc_is_invalid_request_witness:
  "\<not> nullish (JObj [(''jsonrpc'', JStr ''1.0''), (''method'', JStr ''tools/list''), (''id'', JNum 1)])
   \<and> lookup (JObj [(''jsonrpc'', JStr ''1.0''), (''method'', JStr ''tools/list''), (''id'', JNum 1)])
        ''jsonrpc'' \<noteq> JStr ''2.0''
   \<and> post_mcp answering fresh_server
        (JObj [(''jsonrpc'', JStr ''1.0''), (''method'', JStr ''tools/list''), (''id'', JNum 1)])
     = (Inr \<lparr>reply_status = 400,
             reply_json = JObj [(''jsonrpc'', JStr ''2.0''),
                                (''error'', JObj [(''code'', JNum (- 32600)),
                                                  (''message'', JStr ''Invalid Request'')]),
                                (''id'', JNum 1)]\<rparr>, fresh_server)"
  using wrong_jsonrpc_is_invalid_request[of
          "JObj [(''jsonrpc'', JStr ''1.0''), (''method'', JStr ''tools/list''), (''id'', JNum 1)]"
          answering fresh_server]
  by (simp add: nullish_def or_else_def)

text \<open>
  Claim C7. For every \<open>POST /mcp\<close> request with \<open>jsonrpc\<close> \<open>"2.0"\<close> and a method that is
  neither \<open>tools/list\<close> nor \<open>tools/call\<close>, the endpoint responds with HTTP status 400 and a
  JSON-RPC error object with code -32601, echoing the request's \<open>id\<close>.
\<close>

theorem other_method_is_method_not_found:
  "lookup body ''jsonrpc'' = JStr ''2.0''
   \<and> lookup body ''method'' \<noteq> JStr ''tools/list''
   \<and> lookup body ''method'' \<noteq> JStr ''tools/call'' \<longrightarrow>
   post_mcp rt s body
     = (Inr \<lparr>reply_status = 400,
             reply_json = JObj [(''jsonrpc'', JStr ''2.0''),
                                (''error'', JObj [(''code'', JNum (- 32601)),
                                                  (''message'', JStr ''Method not found'')]),
                                (''id'', lookup body ''id'')]\<rparr>, s)"
proof
  assume a: "lookup body ''jsonrpc'' = JStr ''2.0''
   \<and> lookup body ''method'' \<noteq> JStr ''tools/list''
   \<and> lookup body ''method'' \<noteq> JStr ''tools/call''"
  then have "\<not> nullish body"
    using jsonrpc_text_not_nullish by blast
  with a show "post_mcp rt s body
     = (Inr \<lparr>reply_status = 400,
             reply_json = JObj [(''jsonrpc'', JStr ''2.0''),
                                (''error'', JObj [(''code'', JNum (- 32601)),
                                                  (''message'', JStr ''Method not found'')]),
                                (''id'', lookup body ''id'')]\<rparr>, s)"
    by (simp add: post_mcp_def mcp_try_def get_prop_present try_step_def rpc_error_def)
qed

theorem other_method_is_method_not_found_witness:
  "lookup (JObj [(''jsonrpc'', JStr ''2.0''), (''method'', JStr ''nonexistent''), (''id'', JNum 2)])
      ''jsonrpc'' = JStr ''2.0''
   \<and> lookup (JObj [(''jsonrpc'', JStr ''2.0''), (''method'', JStr ''nonexistent''), (''id'', JNum 2)])
      ''method'' = JStr ''nonexistent''
   \<and> post_mcp answering fresh_server
        (JObj [(''jsonrpc'', JStr ''2.0''), (''method'', JStr ''nonexistent''), (''id'', JNum 2)])
     = (Inr \<lparr>reply_status = 400,
             reply_json = JObj [(''jsonrpc'', JStr ''2.0''),
                                (''error'', JObj [(''code'', JNum (- 32601)),
                                                  (''message'', JStr ''Method not found'')]),
                                (''id'', JNum 2)]\<rparr>, fresh_server)"
  using other_method_is_method_not_found[of
          "JObj [(''jsonrpc'', JStr ''2.0''), (''method'', JStr ''nonexistent''), (''id'', JNum 2)]"
          answering fresh_server]
  by simp

text \<open>
  Claim C10. For a \<open>POST /mcp\<close> request with \<open>jsonrpc\<close> \<open>"2.0"\<close>, method \<open>tools/call\<close> and no
  \<open>params\<close> field at all, the response is a protocol-level JSON-RPC error with code -32603
  and HTTP status 500, not a successful result narrating the failure as text: the
  destructuring of \<open>params\<close> stands before the \<open>try\<close> of \<open>handleCallTool\<close>, so the
  \<open>TypeError\<close> reaches the \<open>catch\<close> of the route, which reports its message as \<open>data\<close>.
\<close>

theorem call_without_params_is_internal_error:
  "lookup body ''jsonrpc'' = JStr ''2.0''
   \<and> lookup body ''method'' = JStr ''tools/call''
   \<and> lookup body ''params'' = JUndefined \<longrightarrow>
   handleCallTool rt s (lookup body ''params'')
     = (Inl (TypeError ''Cannot destructure property 'name' of 'params' as it is undefined.''), s)
   \<and> post_mcp rt s body
     = (Inr \<lparr>reply_status = 500,
             reply_json = JObj [(''jsonrpc'', JStr ''2.0''),
                                (''error'', JObj [(''code'', JNum (- 32603)),
                                                  (''message'', JStr ''Internal error''),
                                                  (''data'', JStr
    ''Cannot destructure property 'name' of 'params' as it is undefined.'')]),
                                (''id'', or_else (lookup body ''id'') JNull)]\<rparr>, s)"
proof
  assume a: "lookup body ''jsonrpc'' = JStr ''2.0''
   \<and> lookup body ''method'' = JStr ''tools/call''
   \<and> lookup body ''params'' = JUndefined"
  then have b: "\<not> nullish body"
    using jsonrpc_text_not_nullish by blast
  have h: "handleCallTool rt s JUndefined
     = (Inl (TypeError ''Cannot destructure property 'name' of 'params' as it is undefined.''), s)"
    by (simp add: handleCallTool_def destructure_def nullish_def try_step_def)
  from a b h show "handleCallTool rt s (lookup body ''params'')
     = (Inl (TypeError ''Cannot destructure property 'name' of 'params' as it is undefined.''), s)
   \<and> post_mcp rt s body
     = (Inr \<lparr>reply_status = 500,
             reply_json = JObj [(''jsonrpc'', JStr ''2.0''),
                                (''error'', JObj [(''code'', JNum (- 32603)),
                                                  (''message'', JStr ''Internal error''),
                                                  (''data'', JStr
    ''Cannot destructure property 'name' of 'params' as it is undefined.'')]),
                                (''id'', or_else (lookup body ''id'') JNull)]\<rparr>, s)"
    by (simp add: post_mcp_def mcp_try_def get_prop_present try_step_def rpc_error_def)
qed

theorem call_without_params_is_internal_error_witness:
  "lookup (JObj [(''jsonrpc'', JStr ''2.0''), (''method'', JStr ''tools/call''), (''id'', JNum 7)])
      ''jsonrpc'' = JStr ''2.0''
   \<and> lookup (JObj [(''jsonrpc'', JStr ''2.0''), (''method'', JStr ''tools/call''), (''id'', JNum 7)])
      ''method'' = JStr ''tools/call''
   \<and> lookup (JObj [(''jsonrpc'', JStr ''2.0''), (''method'', JStr ''tools/call''), (''id'', JNum 7)])
      ''params'' = JUndefined
   \<and> post_mcp answering fresh_server
        (JObj [(''jsonrpc'', JStr ''2.0''), (''method'', JStr ''tools/call''), (''id'', JNum 7)])
     = (Inr \<lparr>reply_status = 500,
             reply_json = JObj [(''jsonrpc'', JStr ''2.0''),
                                (''error'', JObj [(''code'', JNum (- 32603)),
                                                  (''message'', JStr ''Internal error''),
                                                  (''data'', JStr
    ''Cannot destructure property 'name' of 'params' as it is undefined.'')]),
                                (''id'', JNum 7)]\<rparr>, fresh_server)"
  using call_without_params_is_internal_error[of
          "JObj [(''jsonrpc'', JStr ''2.0''), (''method'', JStr ''tools/call''), (''id'', JNum 7)]"
          answering fresh_server]
  by (simp add: or_else_def)

text \<open>
  Claim C4 says that every response of \<open>POST /mcp\<close> carries the request's \<open>id\<close> verbatim,
  also when it is \<open>0\<close>, the empty string or \<open>false\<close>. The success and the
  method-not-found branches do echo \<open>request.id\<close>; the invalid-request and the
  internal-error branches send \<open>request.id || null\<close>, which turns every falsy \<open>id\<close> into
  \<open>null\<close>. The two runs below are an invalid request with \<open>id\<close> \<open>0\<close> and a \<open>tools/call\<close>
  without \<open>params\<close> with \<open>id\<close> the empty string: both responses carry \<open>id\<close> \<open>null\<close>.
\<close>

theorem falsy_id_is_replaced_by_null:
  "post_mcp rt s (JObj [(''jsonrpc'', JStr ''1.0''), (''method'', JStr ''tools/list''), (''id'', JNum 0)])
     = (Inr \<lparr>reply_status = 400,
             reply_json = JObj [(''jsonrpc'', JStr ''2.0''),
                                (''error'', JObj [(''code'', JNum (- 32600)),
                                                  (''message'', JStr ''Invalid Request'')]),
                                (''id'', JNull)]\<rparr>, s)
   \<and> post_mcp rt s (JObj [(''jsonrpc'', JStr ''2.0''), (''method'', JStr ''tools/call''), (''id'', JStr [])])
     = (Inr \<lparr>reply_status = 500,
             reply_json = JObj [(''jsonrpc'', JStr ''2.0''),
                                (''error'', JObj [(''code'', JNum (- 32603)),
                                                  (''message'', JStr ''Internal error''),
                                                  (''data'', JStr
    ''Cannot destructure property 'name' of 'params' as it is undefined.'')]),
                                (''id'', JNull)]\<rparr>, s)"
  by (simp add: post_mcp_def mcp_try_def get_prop_def nullish_def try_step_def rpc_error_def
        or_else_def handleCallTool_def destructure_def)

section \<open>Required arguments\<close>

text \<open>
  Claim C3, as the specification states it: for every tool whose input schema declares
  required arguments, invoking its handler with a required argument missing raises before
  any call to the external collaborator, and no outbound request is issued. The run below
  is \<open>get_vps\<close>, whose schema requires \<open>vps_id\<close>, called with the arguments \<open>{}\<close> against a
  collaborator that answers: nothing is raised, the handler returns its result, and one
  request went out, to the path \<open>/v1/vps/undefined\<close>.
\<close>

theorem missing_argument_reaches_collaborator:
  "JStr ''get_vps'' \<in> set (tool_names (filter declares_required index_tools))
   \<and> lookup (JObj []) ''vps_id'' = JUndefined
   \<and> index_switch answering fresh_server (JStr ''get_vps'') (JObj [])
     = (Inr (text_content ''VPS details: {}''),
        fresh_server\<lparr>outbound := [(''https://api.hostinger.com/v1/vps/undefined'',
           JObj [(''method'', JStr ''GET''),
                 (''headers'', JObj [(''Authorization'', JStr ''Bearer secret''),
                                     (''Content-Type'', JStr ''application/json'')])])]\<rparr>)"
proof -
  have run: "index_switch answering fresh_server (JStr ''get_vps'') (JObj [])
     = (Inr (text_content ''VPS details: {}''),
        fresh_server\<lparr>outbound := [(''https://api.hostinger.com/v1/vps/undefined'',
           JObj [(''method'', JStr ''GET''),
                 (''headers'', JObj [(''Authorization'', JStr ''Bearer secret''),
                                     (''Content-Type'', JStr ''application/json'')])])]\<rparr>)"
    by (simp add: index_switch_def get_prop_def nullish_def try_step_def
        getVPS_def makeRequest_def then_return_def answering_def fresh_server_def ok_def)
  then show ?thesis
    by (simp add: index_required_names)
qed

text \<open>
  Claim C3, amended. No handler checks its arguments against the input schema. For a
  tool whose input schema declares required arguments:
  \<^item> When the \<open>arguments\<close> value is present (not \<open>undefined\<close> and not \<open>null\<close>), each
    identifier is read from it, an absent one as \<open>undefined\<close>, and interpolated into the
    request path by a template literal, the absent one as the text \<open>undefined\<close>. If
    every interpolation succeeds, nothing is raised before the external call and the
    handler calls the collaborator exactly once (one \<open>fetch\<close> call), for that path. If
    an interpolated value cannot be converted to text (an object with an own \<open>toString\<close>
    property, or an array that holds one), the template literal raises a \<open>TypeError\<close>
    before any call to the collaborator.
  \<^item> When the \<open>arguments\<close> value itself is \<open>undefined\<close> or \<open>null\<close>, invoking the handler
    raises a \<open>TypeError\<close> before any call to the collaborator, except for
    \<open>create_ssl_certificate\<close>, which passes its arguments on unread and makes its call,
    for \<open>/v1/ssl\<close>, whatever they are.
  \<^item> With the arguments \<open>{}\<close>, where every required argument is missing, the paths
    requested are the twenty listed in the last conjunct, in the order of the catalog.
\<close>

theorem required_arguments_are_not_checked:
  "(JStr n \<in> set (tool_names (filter declares_required index_tools)) \<longrightarrow>
      (\<not> nullish args \<longrightarrow>
         (requested_path rt n args = Inr p \<longrightarrow>
            (\<exists>options. snd (index_switch rt s (JStr n) args)
               = s\<lparr>outbound := outbound s @ [(baseUrl s @ p, options)]\<rparr>))
         \<and> (requested_path rt n args = Inl error \<longrightarrow>
            index_switch rt s (JStr n) args = (Inl error, s)))
      \<and> (nullish args \<and> n \<noteq> ''create_ssl_certificate'' \<longrightarrow>
         (\<exists>m. index_switch rt s (JStr n) args = (Inl (TypeError m), s))))
   \<and> (\<exists>options. snd (index_switch rt s (JStr ''create_ssl_certificate'') args)
         = s\<lparr>outbound := outbound s @ [(baseUrl s @ ''/v1/ssl'', options)]\<rparr>)
   \<and> (JStr n \<in> set (tool_names (filter declares_required http_tools)) \<longrightarrow>
      (\<not> nullish args \<longrightarrow>
         (requested_path rt n args = Inr p \<longrightarrow>
            (\<exists>options. snd (http_switch rt s (JStr n) args)
               = s\<lparr>outbound := outbound s @ [(baseUrl s @ p, options)]\<rparr>))
         \<and> (requested_path rt n args = Inl error \<longrightarrow>
            http_switch rt s (JStr n) args = (Inl error, s)))
      \<and> (nullish args \<longrightarrow>
         (\<exists>m. http_switch rt s (JStr n) args = (Inl (TypeError m), s))))
   \<and> map (\<lambda>n. requested_path rt n (JObj []))
         [n. JStr n \<leftarrow> tool_names (filter declares_required index_tools)]
       = map Inr
            [''/v1/vps/undefined'', ''/v1/vps/undefined/start'', ''/v1/vps/undefined/stop'',
             ''/v1/vps/undefined/restart'', ''/v1/vps/undefined/usage?period=24h'',
             ''/v1/domains/undefined'', ''/v1/domains/undefined/dns'',
             ''/v1/domains/undefined/dns'', ''/v1/domains/undefined/dns/undefined'',
             ''/v1/domains/undefined/dns/undefined'', ''/v1/hosting/undefined'',
             ''/v1/hosting/undefined/usage'', ''/v1/domains/undefined/email'',
             ''/v1/domains/undefined/email'', ''/v1/domains/undefined/email/undefined'',
             ''/v1/ssl/undefined'', ''/v1/ssl'', ''/v1/undefined/undefined/backups'',
             ''/v1/undefined/undefined/backups'', ''/v1/backups/undefined/restore'']"
proof -
  have index_sends:
    "\<exists>options. snd (index_switch rt s (JStr n) args)
               = s\<lparr>outbound := outbound s @ [(baseUrl s @ p, options)]\<rparr>"
    if "JStr n \<in> set (tool_names (filter declares_required index_tools))" and "\<not> nullish args"
      and "requested_path rt n args = Inr p"
    using index_switch_follows[OF that(1,2), of s rt] unfolding that(3)
    by (simp add: follows_def sends_to_def)
  have index_raises: "index_switch rt s (JStr n) args = (Inl error, s)"
    if "JStr n \<in> set (tool_names (filter declares_required index_tools))" and "\<not> nullish args"
      and "requested_path rt n args = Inl error"
    using index_switch_follows[OF that(1,2), of s rt] unfolding that(3)
    by (simp add: follows_def)
  have index_absent: "\<exists>m. index_switch rt s (JStr n) args = (Inl (TypeError m), s)"
    if "JStr n \<in> set (tool_names (filter declares_required index_tools))"
      and "nullish args \<and> n \<noteq> ''create_ssl_certificate''"
  proof -
    from that(2) have "JStr n \<noteq> JStr ''create_ssl_certificate''" and "nullish args"
      by simp_all
    with that(1) show ?thesis by (intro index_switch_throws)
  qed
  have ssl: "\<exists>options. snd (index_switch rt s (JStr ''create_ssl_certificate'') args)
         = s\<lparr>outbound := outbound s @ [(baseUrl s @ ''/v1/ssl'', options)]\<rparr>"
    by (rule sends_toD) (rule index_switch_ssl)
  have http_sends:
    "\<exists>options. snd (http_switch rt s (JStr n) args)
               = s\<lparr>outbound := outbound s @ [(baseUrl s @ p, options)]\<rparr>"
    if "JStr n \<in> set (tool_names (filter declares_required http_tools))" and "\<not> nullish args"
      and "requested_path rt n args = Inr p"
    using http_switch_follows[OF that(1,2), of s rt] unfolding that(3)
    by (simp add: follows_def sends_to_def)
  have http_raises: "http_switch rt s (JStr n) args = (Inl error, s)"
    if "JStr n \<in> set (tool_names (filter declares_required http_tools))" and "\<not> nullish args"
      and "requested_path rt n args = Inl error"
    using http_switch_follows[OF that(1,2), of s rt] unfolding that(3)
    by (simp add: follows_def)
  have http_absent: "\<exists>m. http_switch rt s (JStr n) args = (Inl (TypeError m), s)"
    if "JStr n \<in> set (tool_names (filter declares_required http_tools))" and "nullish args"
    by (rule http_switch_throws[OF that])
  have empty: "map (\<lambda>n. requested_path rt n (JObj []))
         [n. JStr n \<leftarrow> tool_names (filter declares_required index_tools)]
       = map Inr
            [''/v1/vps/undefined'', ''/v1/vps/undefined/start'', ''/v1/vps/undefined/stop'',
             ''/v1/vps/undefined/restart'', ''/v1/vps/undefined/usage?period=24h'',
             ''/v1/domains/undefined'', ''/v1/domains/undefined/dns'',
             ''/v1/domains/undefined/dns'', ''/v1/domains/undefined/dns/undefined'',
             ''/v1/domains/undefined/dns/undefined'', ''/v1/hosting/undefined'',
             ''/v1/hosting/undefined/usage'', ''/v1/domains/undefined/email'',
             ''/v1/domains/undefined/email'', ''/v1/domains/undefined/email/undefined'',
             ''/v1/ssl/undefined'', ''/v1/ssl'', ''/v1/undefined/undefined/backups'',
             ''/v1/undefined/undefined/backups'', ''/v1/backups/undefined/restore'']"
    by (simp add: index_required_names requested_path_def)
  show ?thesis
    apply (intro conjI impI)
           apply (erule (2) index_sends)
          apply (erule (2) index_raises)
         apply (erule (1) index_absent)
        apply (rule ssl)
       apply (erule (2) http_sends)
      apply (erule (2) http_raises)
     apply (erule (1) http_absent)
    apply (rule empty)
    done
qed

theorem required_arguments_are_not_checked_witness:
  "JStr ''get_vps'' \<in> set (tool_names (filter declares_required index_tools))
   \<and> JStr ''get_vps'' \<in> set (tool_names (filter declares_required http_tools))
   \<and> \<not> nullish (JObj [])
   \<and> requested_path answering ''get_vps'' (JObj []) = Inr ''/v1/vps/undefined''
   \<and> (\<exists>options. snd (index_switch answering fresh_server (JStr ''get_vps'') (JObj []))
         = fresh_server\<lparr>outbound := outbound fresh_server
                                       @ [(baseUrl fresh_server @ ''/v1/vps/undefined'', options)]\<rparr>)
   \<and> (\<exists>options. snd (http_switch answering fresh_server (JStr ''get_vps'') (JObj []))
         = fresh_server\<lparr>outbound := outbound fresh_server
                                       @ [(baseUrl fresh_server @ ''/v1/vps/undefined'', options)]\<rparr>)
   \<and> \<not> nullish (JObj [(''vps_id'', JObj [(''toString'', JNum 1)])])
   \<and> requested_path answering ''get_vps'' (JObj [(''vps_id'', JObj [(''toString'', JNum 1)])])
       = Inl (TypeError ''Cannot convert object to primitive value'')
   \<and> index_switch answering fresh_server (JStr ''get_vps'')
        (JObj [(''vps_id'', JObj [(''toString'', JNum 1)])])
       = (Inl (TypeError ''Cannot convert object to primitive value''), fresh_server)
   \<and> http_switch answering fresh_server (JStr ''get_vps'')
        (JObj [(''vps_id'', JObj [(''toString'', JNum 1)])])
       = (Inl (TypeError ''Cannot convert object to primitive value''), fresh_server)
   \<and> nullish JUndefined
   \<and> (\<exists>m. index_switch answering fresh_server (JStr ''get_vps'') JUndefined
            = (Inl (TypeError m), fresh_server))
   \<and> (\<exists>m. http_switch answering fresh_server (JStr ''get_vps'') JUndefined
            = (Inl (TypeError m), fresh_server))"
proof -
  have r: "JStr ''get_vps'' \<in> set (tool_names (filter declares_required index_tools))"
       "JStr ''get_vps'' \<in> set (tool_names (filter declares_required http_tools))"
    by (simp_all add: index_required_names http_required_names)
  have n: "\<not> nullish (JObj [])" "\<not> nullish (JObj [(''vps_id'', JObj [(''toString'', JNum 1)])])"
      "nullish JUndefined" "''get_vps'' \<noteq> ''create_ssl_certificate''"
    by (simp_all add: nullish_def)
  have p1: "requested_path answering ''get_vps'' (JObj []) = Inr ''/v1/vps/undefined''"
    by (simp add: requested_path_def)
  have p2: "requested_path answering ''get_vps'' (JObj [(''vps_id'', JObj [(''toString'', JNum 1)])])
       = Inl (TypeError ''Cannot convert object to primitive value'')"
    by (simp add: requested_path_def)
  note missing = required_arguments_are_not_checked[of "''get_vps''" "JObj []" answering
      "''/v1/vps/undefined''" fresh_server]
  note unprintable = required_arguments_are_not_checked[of "''get_vps''"
      "JObj [(''vps_id'', JObj [(''toString'', JNum 1)])]" answering _ fresh_server
      "TypeError ''Cannot convert object to primitive value''"]
  note absent = required_arguments_are_not_checked[of "''get_vps''" JUndefined answering _ fresh_server]
  from missing r n(1) p1
  have a: "\<exists>options. snd (index_switch answering fresh_server (JStr ''get_vps'') (JObj []))
         = fresh_server\<lparr>outbound := outbound fresh_server
                                       @ [(baseUrl fresh_server @ ''/v1/vps/undefined'', options)]\<rparr>"
    and b: "\<exists>options. snd (http_switch answering fresh_server (JStr ''get_vps'') (JObj []))
         = fresh_server\<lparr>outbound := outbound fresh_server
                                       @ [(baseUrl fresh_server @ ''/v1/vps/undefined'', options)]\<rparr>"
    by blast+
  from unprintable r n(2) p2
  have c: "index_switch answering fresh_server (JStr ''get_vps'')
        (JObj [(''vps_id'', JObj [(''toString'', JNum 1)])])
       = (Inl (TypeError ''Cannot convert object to primitive value''), fresh_server)"
    and d: "http_switch answering fresh_server (JStr ''get_vps'')
        (JObj [(''vps_id'', JObj [(''toString'', JNum 1)])])
       = (Inl (TypeError ''Cannot convert object to primitive value''), fresh_server)"
    by blast+
  from absent r n(3,4)
  have e: "\<exists>m. index_switch answering fresh_server (JStr ''get_vps'') JUndefined
            = (Inl (TypeError m), fresh_server)"
    and f: "\<exists>m. http_switch answering fresh_server (JStr ''get_vps'') JUndefined
            = (Inl (TypeError m), fresh_server)"
    by blast+
  from r n p1 p2 a b c d e f show ?thesis
    by (simp only: simp_thms)
qed

end
